theory Spec2Isabelle
  imports Complex_Main "HOL-Library.Word"
begin

unbundle bit_operations_syntax

section \<open>Binary64 arithmetic as Python performs it\<close>

text \<open>
  The integration computes every scaled level through Python \<^verbatim>\<open>float\<close>s
  (\<^verbatim>\<open>self._brightness / 255.0\<close>, \<^verbatim>\<open>int(r * scaling_factor)\<close>), and truncation of a
  product that is off by one unit in the last place changes the integer sent to the
  controller: \<^verbatim>\<open>int(51 * (155 / 255.0))\<close> is 30 although \<open>51 * 155 / 255 = 31\<close>.
  Floats are therefore modelled as the real numbers they denote, and every arithmetic
  operation rounds its exact result to the nearest binary64 value, ties to even
  (\<open>fl\<close>). All magnitudes that occur here lie far inside the normal range of binary64,
  so overflow, subnormal numbers, infinities and NaN are not modelled.
\<close>

fun bitlength :: "nat \<Rightarrow> nat" where
  "bitlength n = (if n = 0 then 0 else Suc (bitlength (n div 2)))"

declare bitlength.simps [simp del]

text \<open>The exponent \<open>e\<close> of a positive number: \<open>2 powi e \<le> x < 2 powi (e + 1)\<close>.\<close>

definition float_exponent :: "real \<Rightarrow> int" where
  "float_exponent x =
     (if 1 \<le> x then int (bitlength (nat \<lfloor>x\<rfloor>)) - 1
      else let j = int (bitlength (nat \<lfloor>1 / x\<rfloor>)) - 1
           in if x * 2 ^ nat j = 1 then - j else - j - 1)"

definition round_half_even :: "real \<Rightarrow> int" where
  "round_half_even s =
     (let f = \<lfloor>s\<rfloor>; d = s - of_int f
      in if d < 1 / 2 then f else if 1 / 2 < d then f + 1 else if even f then f else f + 1)"

text \<open>Rounding to 53 significant bits.\<close>

definition fl :: "real \<Rightarrow> real" where
  "fl x = (if x = 0 then 0
           else let e = float_exponent \<bar>x\<bar>
                in of_int (round_half_even (x * 2 powi (52 - e))) * 2 powi (e - 52))"

definition fadd :: "real \<Rightarrow> real \<Rightarrow> real" where
  "fadd a b = fl (a + b)"

definition fsub :: "real \<Rightarrow> real \<Rightarrow> real" where
  "fsub a b = fl (a - b)"

definition fmul :: "real \<Rightarrow> real \<Rightarrow> real" where
  "fmul a b = fl (a * b)"

text \<open>Division; every call site below has a non-zero divisor or guards it.\<close>

definition fdiv :: "real \<Rightarrow> real \<Rightarrow> real" where
  "fdiv a b = fl (a / b)"

text \<open>
  \<^verbatim>\<open>x ** y\<close> for a non-negative base, idealised as the correctly rounded power. The
  C library's \<^verbatim>\<open>pow\<close> is accurate to about one unit in the last place and exact at
  base 1, which is all that is used of it below.
\<close>

definition py_pow :: "real \<Rightarrow> real \<Rightarrow> real" where
  "py_pow x y = fl (x powr y)"

text \<open>\<^verbatim>\<open>int(x)\<close> on a float truncates towards zero.\<close>

definition py_int :: "real \<Rightarrow> int" where
  "py_int x = (if 0 \<le> x then \<lfloor>x\<rfloor> else \<lceil>x\<rceil>)"

text \<open>Python's \<^verbatim>\<open>round\<close> on a float rounds half to even; the specification's rounding.\<close>

definition py_round :: "real \<Rightarrow> int" where
  "py_round x = round_half_even x"

section \<open>Messages, exceptions and the light entity\<close>

text \<open>
  \<^verbatim>\<open>create_dmx_message\<close> and \<^verbatim>\<open>create_dali_message\<close> belong to the external client
  library and are pure builders; a message is represented by the arguments it was built
  from. The keyword arguments of \<^verbatim>\<open>create_dmx_message\<close> are, in order,
  \<^verbatim>\<open>message_id, zone, universe_mask, channel, repeat, level, fade_time_by_10ms\<close>; those
  of \<^verbatim>\<open>create_dali_message\<close> are \<^verbatim>\<open>message_id, line_mask, address, custom_command, arg,
  type8, dtr\<close>, the last four optional.
\<close>

datatype custom_dali_command = DALI_ARC_LEVEL

datatype type8_command =
  SET_TEMP_X_COORD | SET_TEMP_Y_COORD | SET_TEMP_COLOUR_TEMPERATURE | ACTIVATE

datatype message =
  create_dmx_message int int int int int "int list" int
| create_dali_message int int int "custom_dali_command option" "int list option"
    "type8_command option" "int list option"

datatype exn =
  EDIDIOConnectionError | EDIDIOCommunicationError | EDIDIOTimeoutError
| ZeroDivisionError | TypeError | OtherException

text \<open>
  Modelled from the spec: the protocol names of \<^verbatim>\<open>const.py\<close>, which is not among the
  sources; section 6 of the specification lists the closed enumeration.
\<close>

definition PROTOCOL_DMX_WHITE :: string where "PROTOCOL_DMX_WHITE = ''dmx_white''"
definition PROTOCOL_DMX_RGB :: string where "PROTOCOL_DMX_RGB = ''dmx_rgb''"
definition PROTOCOL_DMX_RGBW :: string where "PROTOCOL_DMX_RGBW = ''dmx_rgbw''"
definition PROTOCOL_DALI_WHITE :: string where "PROTOCOL_DALI_WHITE = ''dali_white''"
definition PROTOCOL_DALI_RGB :: string where "PROTOCOL_DALI_RGB = ''dali_rgb''"
definition PROTOCOL_DALI_RGBW :: string where "PROTOCOL_DALI_RGBW = ''dali_rgbw''"
definition PROTOCOL_DALI_DT8_XY :: string where "PROTOCOL_DALI_DT8_XY = ''dali_dt8_xy''"
definition PROTOCOL_DALI_DT8_CCT :: string where "PROTOCOL_DALI_DT8_CCT = ''dali_dt8_cct''"

definition PROTOCOLS :: "string list" where
  "PROTOCOLS =
     [PROTOCOL_DMX_WHITE, PROTOCOL_DMX_RGB, PROTOCOL_DMX_RGBW, PROTOCOL_DALI_WHITE,
      PROTOCOL_DALI_RGB, PROTOCOL_DALI_RGBW, PROTOCOL_DALI_DT8_XY, PROTOCOL_DALI_DT8_CCT]"

text \<open>
  The fields of \<^verbatim>\<open>ControlFreakLight\<close> that the command handlers read or write. The
  name and the unique id only reach the log. Colours are the tuples Home Assistant
  passes, so \<^verbatim>\<open>len(self._rgbw_color) == 4\<close> always holds.
\<close>

record light =
  protocol :: string
  address :: int
  line :: int
  is_on :: bool
  brightness :: int
  rgb_color :: "int \<times> int \<times> int"
  rgbw_color :: "int \<times> int \<times> int \<times> int"
  color_temp :: "int option"
  attr_min_color_temp_kelvin :: "int option"
  attr_max_color_temp_kelvin :: "int option"
  attr_available :: bool

text \<open>\<^verbatim>\<open>ControlFreakLight.__init__\<close>\<close>

definition init_light :: "int \<Rightarrow> string \<Rightarrow> int \<Rightarrow> light" where
  "init_light addr proto light_line =
     \<lparr>protocol = proto, address = addr, line = light_line,
      is_on = False, brightness = 255, rgb_color = (255, 255, 255),
      rgbw_color = (255, 255, 255, 255), color_temp = Some 3000,
      attr_min_color_temp_kelvin = (if proto = PROTOCOL_DALI_DT8_CCT then Some 2000 else None),
      attr_max_color_temp_kelvin = (if proto = PROTOCOL_DALI_DT8_CCT then Some 6500 else None),
      attr_available = True\<rparr>"

text \<open>
  The keyword arguments of a turn-on request that the handler looks at; \<open>None\<close> is an
  absent key.
\<close>

record kwargs =
  kw_brightness :: "int option"
  kw_rgb_color :: "(int \<times> int \<times> int) option"
  kw_rgbw_color :: "(int \<times> int \<times> int \<times> int) option"
  kw_color_temp_kelvin :: "int option"

definition no_kwargs :: kwargs where
  "no_kwargs = \<lparr>kw_brightness = None, kw_rgb_color = None, kw_rgbw_color = None,
                 kw_color_temp_kelvin = None\<rparr>"

text \<open>
  \<^verbatim>\<open>get_message_id_generator\<close>: the closure increments its counter and returns the new
  value. The counter is passed explicitly; the result is the id and the new counter.
\<close>

definition get_message_id :: "int \<Rightarrow> int \<times> int" where
  "get_message_id current_id = (current_id + 1, current_id + 1)"

text \<open>
  Home Assistant's \<^verbatim>\<open>color_temperature_kelvin_to_mired\<close>, which is
  \<^verbatim>\<open>math.floor(1000000 / kelvin_temperature)\<close>; \<open>None\<close> stands for the attribute being
  unset, on which the division raises.
\<close>

definition color_temperature_kelvin_to_mired :: "int option \<Rightarrow> exn + int" where
  "color_temperature_kelvin_to_mired kelvin =
     (case kelvin of
        None \<Rightarrow> Inl TypeError
      | Some k \<Rightarrow> if k = 0 then Inl ZeroDivisionError else Inr \<lfloor>fdiv 1000000 (of_int k)\<rfloor>)"

text \<open>The properties \<^verbatim>\<open>min_mireds\<close> and \<^verbatim>\<open>max_mireds\<close>.\<close>

definition min_mireds :: "light \<Rightarrow> exn + int option" where
  "min_mireds l =
     (if protocol l = PROTOCOL_DALI_DT8_CCT
      then map_sum id Some (color_temperature_kelvin_to_mired (attr_max_color_temp_kelvin l))
      else Inr None)"

definition max_mireds :: "light \<Rightarrow> exn + int option" where
  "max_mireds l =
     (if protocol l = PROTOCOL_DALI_DT8_CCT
      then map_sum id Some (color_temperature_kelvin_to_mired (attr_min_color_temp_kelvin l))
      else Inr None)"

section \<open>RGB to CIE xy\<close>

text \<open>
  \<^verbatim>\<open>rgb_to_xy_16bit\<close>, with its nested \<^verbatim>\<open>gamma\<close>. The decimal literals are the doubles
  nearest to them. Channels arrive as integers (from the colour tuple) or as floats.
\<close>

definition gamma :: "real \<Rightarrow> real" where
  "gamma c =
     (if fl (45045 / 1000000) < c
      then py_pow (fdiv (fadd c (fl (55 / 1000))) (fadd 1 (fl (55 / 1000)))) (fl (24 / 10))
      else fdiv c (fl (1292 / 100)))"

text \<open>Step 1: a channel above 1 is taken to be on the 0..255 scale and divided by 255.\<close>

definition normalize_channel :: "real \<Rightarrow> real" where
  "normalize_channel c = (if 1 < c then fdiv c 255 else c)"

text \<open>
  Steps 3 to 5: the Wide RGB D65 matrix on the gamma-corrected channels, the chromaticity
  coordinates and their scaling to 16 bits.
\<close>

definition linear_rgb_to_xy_16bit :: "real \<Rightarrow> real \<Rightarrow> real \<Rightarrow> int \<times> int" where
  "linear_rgb_to_xy_16bit r g b =
     (let X = fadd (fadd (fmul r (fl (649926 / 1000000))) (fmul g (fl (103455 / 1000000))))
                (fmul b (fl (197109 / 1000000)));
          Y = fadd (fadd (fmul r (fl (234327 / 1000000))) (fmul g (fl (743075 / 1000000))))
                (fmul b (fl (22598 / 1000000)));
          Z = fadd (fadd (fmul r 0) (fmul g (fl (53077 / 1000000))))
                (fmul b (fl (1035763 / 1000000)));
          total = fadd (fadd X Y) Z;
          x = (if total \<noteq> 0 then fdiv X total else 0);
          y = (if total \<noteq> 0 then fdiv Y total else 0);
          x_int = py_int (fmul (max 0 (min 1 x)) 65535);
          y_int = py_int (fmul (max 0 (min 1 y)) 65535)
      in (x_int, y_int))"

definition rgb_to_xy_16bit :: "real \<Rightarrow> real \<Rightarrow> real \<Rightarrow> int \<times> int" where
  "rgb_to_xy_16bit r0 g0 b0 =
     (let r1 = normalize_channel r0;
          g1 = normalize_channel g0;
          b1 = normalize_channel b0;
          r = gamma r1;
          g = gamma g1;
          b = gamma b1
      in linear_rgb_to_xy_16bit r g b)"

section \<open>Turning a light on\<close>

text \<open>
  Step 1 of \<^verbatim>\<open>async_turn_on\<close>: the keyword arguments update the stored state. This runs
  before the \<^verbatim>\<open>try\<close> block, so a failing Kelvin conversion leaves the handler as an
  exception, with the fields assigned so far already changed.
\<close>

definition update_state :: "kwargs \<Rightarrow> light \<Rightarrow> light \<times> exn option" where
  "update_state kw l =
     (let l1 = (case kw_brightness kw of
                  Some b \<Rightarrow> l\<lparr>brightness := b\<rparr>
                | None \<Rightarrow> if \<not> is_on l \<and> brightness l = 0 then l\<lparr>brightness := 255\<rparr> else l);
          l2 = (case kw_rgb_color kw of Some c \<Rightarrow> l1\<lparr>rgb_color := c\<rparr> | None \<Rightarrow> l1);
          l3 = (case kw_rgbw_color kw of
                  Some (r, g, b, w) \<Rightarrow> l2\<lparr>rgbw_color := (r, g, b, w), rgb_color := (r, g, b)\<rparr>
                | None \<Rightarrow> l2)
      in case kw_color_temp_kelvin kw of
           None \<Rightarrow> (l3, None)
         | Some k \<Rightarrow>
             (case color_temperature_kelvin_to_mired (Some k) of
                Inl e \<Rightarrow> (l3, Some e)
              | Inr m \<Rightarrow> (l3\<lparr>color_temp := Some m\<rparr>, None)))"

text \<open>
  The colour-temperature value of the \<^verbatim>\<open>DALI_DT8_CCT\<close> branch: \<^verbatim>\<open>normalized_mired\<close>,
  \<^verbatim>\<open>int((1 - normalized_mired) * 65535)\<close> and the clamp, as a function of the stored
  mired value and of \<^verbatim>\<open>self.max_mireds\<close> and \<^verbatim>\<open>self.min_mireds\<close>. The caller has
  checked that the two bounds differ.
\<close>

definition dt8_cct_value :: "int \<Rightarrow> int \<Rightarrow> int \<Rightarrow> int" where
  "dt8_cct_value mired mx mn =
     (let normalized_mired = fdiv (of_int (mired - mx)) (of_int (mn - mx));
          dali_dt8_cct_value = py_int (fmul (fsub 1 normalized_mired) 65535)
      in max 0 (min 65535 dali_dt8_cct_value))"

text \<open>
  \<^verbatim>\<open>int(self._brightness / 255.0 * DALI_ARC_LEVEL_MAX)\<close>, the expression that the
  \<^verbatim>\<open>DALI_WHITE\<close>, \<^verbatim>\<open>DALI_DT8_XY\<close>, \<^verbatim>\<open>DALI_DT8_CCT\<close> and fallback branches share.
\<close>

definition brightness_to_arc_level :: "int \<Rightarrow> int \<Rightarrow> int" where
  "brightness_to_arc_level DALI_ARC_LEVEL_MAX b =
     py_int (fmul (fdiv (of_int b) 255) (of_int DALI_ARC_LEVEL_MAX))"

text \<open>
  Step 2 of \<^verbatim>\<open>async_turn_on\<close>: the branch on the protocol that fills
  \<^verbatim>\<open>commands_to_send\<close>. \<open>DALI_ARC_LEVEL_MAX\<close> is the constant of that name imported from
  the client library; \<open>current_id\<close> is the state of the message id generator. The result
  is the command list, or the exception raised while building it, and the generator's
  new state.
\<close>

definition on_commands :: "int \<Rightarrow> light \<Rightarrow> int \<Rightarrow> (exn + message list) \<times> int" where
  "on_commands DALI_ARC_LEVEL_MAX l current_id =
     (if protocol l = PROTOCOL_DMX_RGB then
        (case rgb_color l of (r, g, b) \<Rightarrow>
           let scaling_factor = fdiv (of_int (brightness l)) 255;
               scaled_r = py_int (fmul (of_int r) scaling_factor);
               scaled_g = py_int (fmul (of_int g) scaling_factor);
               scaled_b = py_int (fmul (of_int b) scaling_factor);
               (id1, c1) = get_message_id current_id
           in (Inr [create_dmx_message id1 0 2 (address l) 1 [scaled_r, scaled_g, scaled_b] 25],
               c1))
      else if protocol l = PROTOCOL_DMX_RGBW then
        (case rgbw_color l of (r, g, b, w) \<Rightarrow>
           let scaling_factor = fdiv (of_int (brightness l)) 255;
               scaled_r = py_int (fmul (of_int r) scaling_factor);
               scaled_g = py_int (fmul (of_int g) scaling_factor);
               scaled_b = py_int (fmul (of_int b) scaling_factor);
               scaled_w = py_int (fmul (of_int w) scaling_factor);
               (id1, c1) = get_message_id current_id
           in (Inr [create_dmx_message id1 0 2 (address l) 1
                      [scaled_r, scaled_g, scaled_b, scaled_w] 25],
               c1))
      else if protocol l = PROTOCOL_DALI_RGB then
        (case rgb_color l of (r, g, b) \<Rightarrow>
           let dali_max_val = DALI_ARC_LEVEL_MAX;
               ha_max = 255;
               effective_r = py_int (fmul (of_int r) (fdiv (of_int (brightness l)) ha_max));
               effective_g = py_int (fmul (of_int g) (fdiv (of_int (brightness l)) ha_max));
               effective_b = py_int (fmul (of_int b) (fdiv (of_int (brightness l)) ha_max));
               dali_r = min (py_int (fmul (of_int effective_r) (fdiv (of_int dali_max_val) ha_max)))
                          dali_max_val;
               dali_g = min (py_int (fmul (of_int effective_g) (fdiv (of_int dali_max_val) ha_max)))
                          dali_max_val;
               dali_b = min (py_int (fmul (of_int effective_b) (fdiv (of_int dali_max_val) ha_max)))
                          dali_max_val;
               (id1, c1) = get_message_id current_id;
               (id2, c2) = get_message_id c1;
               (id3, c3) = get_message_id c2
           in (Inr [create_dali_message id1 (line l) (address l) (Some DALI_ARC_LEVEL)
                      (Some [dali_r]) None None,
                    create_dali_message id2 (line l) (address l + 1) (Some DALI_ARC_LEVEL)
                      (Some [dali_g]) None None,
                    create_dali_message id3 (line l) (address l + 2) (Some DALI_ARC_LEVEL)
                      (Some [dali_b]) None None],
               c3))
      else if protocol l = PROTOCOL_DALI_RGBW then
        (case rgbw_color l of (r, g, b, w) \<Rightarrow>
           let dali_max_val = DALI_ARC_LEVEL_MAX;
               ha_max = 255;
               effective_r = py_int (fmul (of_int r) (fdiv (of_int (brightness l)) ha_max));
               effective_g = py_int (fmul (of_int g) (fdiv (of_int (brightness l)) ha_max));
               effective_b = py_int (fmul (of_int b) (fdiv (of_int (brightness l)) ha_max));
               effective_w = py_int (fmul (of_int w) (fdiv (of_int (brightness l)) ha_max));
               dali_r = min (py_int (fmul (of_int effective_r) (fdiv (of_int dali_max_val) ha_max)))
                          dali_max_val;
               dali_g = min (py_int (fmul (of_int effective_g) (fdiv (of_int dali_max_val) ha_max)))
                          dali_max_val;
               dali_b = min (py_int (fmul (of_int effective_b) (fdiv (of_int dali_max_val) ha_max)))
                          dali_max_val;
               dali_w = min (py_int (fmul (of_int effective_w) (fdiv (of_int dali_max_val) ha_max)))
                          dali_max_val;
               (id1, c1) = get_message_id current_id;
               (id2, c2) = get_message_id c1;
               (id3, c3) = get_message_id c2;
               (id4, c4) = get_message_id c3
           in (Inr [create_dali_message id1 (line l) (address l) (Some DALI_ARC_LEVEL)
                      (Some [dali_r]) None None,
                    create_dali_message id2 (line l) (address l + 1) (Some DALI_ARC_LEVEL)
                      (Some [dali_g]) None None,
                    create_dali_message id3 (line l) (address l + 2) (Some DALI_ARC_LEVEL)
                      (Some [dali_b]) None None,
                    create_dali_message id4 (line l) (address l + 3) (Some DALI_ARC_LEVEL)
                      (Some [dali_w]) None None],
               c4))
      else if protocol l = PROTOCOL_DALI_DT8_XY then
        (case rgbw_color l of (r, g, b, w) \<Rightarrow>
           let (x16, y16) = rgb_to_xy_16bit (of_int r) (of_int g) (of_int b);
               x_lsb = x16 AND 255;
               x_msb = drop_bit 8 x16 AND 255;
               y_lsb = y16 AND 255;
               y_msb = drop_bit 8 y16 AND 255;
               (id1, c1) = get_message_id current_id;
               (id2, c2) = get_message_id c1;
               (id3, c3) = get_message_id c2;
               (id4, c4) = get_message_id c3
           in (Inr [create_dali_message id1 (line l) (address l) None None
                      (Some SET_TEMP_X_COORD) (Some [x_lsb, x_msb]),
                    create_dali_message id2 (line l) (address l) None None
                      (Some SET_TEMP_Y_COORD) (Some [y_lsb, y_msb]),
                    create_dali_message id3 (line l) (address l) (Some DALI_ARC_LEVEL)
                      (Some [brightness_to_arc_level DALI_ARC_LEVEL_MAX (brightness l)])
                      None None,
                    create_dali_message id4 (line l) (address l) None None (Some ACTIVATE) None],
               c4))
      else if protocol l = PROTOCOL_DALI_DT8_CCT then
        (case color_temp l of
           None \<Rightarrow> (Inr [], current_id)
         | Some ct \<Rightarrow>
             (case max_mireds l of
                Inl e \<Rightarrow> (Inl e, current_id)
              | Inr None \<Rightarrow> (Inl TypeError, current_id)
              | Inr (Some mx) \<Rightarrow>
                  (case min_mireds l of
                     Inl e \<Rightarrow> (Inl e, current_id)
                   | Inr None \<Rightarrow> (Inl TypeError, current_id)
                   | Inr (Some mn) \<Rightarrow>
                       if mn - mx = 0 then (Inl ZeroDivisionError, current_id)
                       else
                         let dali_dt8_cct_value = dt8_cct_value ct mx mn;
                             dali_cct_lsb = dali_dt8_cct_value AND 255;
                             dali_cct_msb = drop_bit 8 dali_dt8_cct_value AND 255;
                             (id1, c1) = get_message_id current_id;
                             (id2, c2) = get_message_id c1;
                             (id3, c3) = get_message_id c2
                         in (Inr [create_dali_message id1 (line l) (address l) None None
                                    (Some SET_TEMP_COLOUR_TEMPERATURE)
                                    (Some [dali_cct_lsb, dali_cct_msb]),
                                  create_dali_message id2 (line l) (address l)
                                    (Some DALI_ARC_LEVEL)
                                    (Some [brightness_to_arc_level DALI_ARC_LEVEL_MAX
                                             (brightness l)])
                                    None None,
                                  create_dali_message id3 (line l) (address l) None None
                                    (Some ACTIVATE) None],
                             c3))))
      else if protocol l = PROTOCOL_DALI_WHITE then
        (let dali_arc_level = brightness_to_arc_level DALI_ARC_LEVEL_MAX (brightness l);
             (id1, c1) = get_message_id current_id
         in (Inr [create_dali_message id1 (line l) (address l) (Some DALI_ARC_LEVEL)
                    (Some [dali_arc_level]) None None],
             c1))
      else if protocol l = PROTOCOL_DMX_WHITE then
        (let (id1, c1) = get_message_id current_id
         in (Inr [create_dmx_message id1 0 2 (address l) 1 [brightness l] 25], c1))
      else
        (let dali_arc_level = brightness_to_arc_level DALI_ARC_LEVEL_MAX (brightness l);
             (id1, c1) = get_message_id current_id
         in (Inr [create_dali_message id1 (line l) (address l) (Some DALI_ARC_LEVEL)
                    (Some [dali_arc_level]) None None],
             c1)))"

text \<open>
  What a handler leaves behind: the entity, the state of the id generator, the command
  list handed to \<^verbatim>\<open>send_dali_commands_sequence\<close> (\<open>None\<close> when the transport was not
  called) and the exception that escaped the handler, if any.
\<close>

record turn_result =
  res_light :: light
  res_counter :: int
  res_sent :: "message list option"
  res_raised :: "exn option"

text \<open>
  \<^verbatim>\<open>async_turn_on\<close>. The transport's \<^verbatim>\<open>send_dali_commands_sequence\<close> is a parameter: it
  answers a command list with \<open>None\<close> on success or with the exception it raised. Both
  \<^verbatim>\<open>except\<close> clauses mark the light unavailable and return.
\<close>

definition async_turn_on ::
  "int \<Rightarrow> (message list \<Rightarrow> exn option) \<Rightarrow> kwargs \<Rightarrow> light \<Rightarrow> int \<Rightarrow> turn_result" where
  "async_turn_on DALI_ARC_LEVEL_MAX send_dali_commands_sequence kw l current_id =
     (case update_state kw l of
        (l', Some e) \<Rightarrow>
          \<lparr>res_light = l', res_counter = current_id, res_sent = None, res_raised = Some e\<rparr>
      | (l', None) \<Rightarrow>
          (case on_commands DALI_ARC_LEVEL_MAX l' current_id of
             (Inl e, c) \<Rightarrow>
               \<lparr>res_light = l'\<lparr>attr_available := False\<rparr>, res_counter = c, res_sent = None,
                res_raised = None\<rparr>
           | (Inr commands_to_send, c) \<Rightarrow>
               if commands_to_send = [] then
                 \<lparr>res_light = l', res_counter = c, res_sent = None, res_raised = None\<rparr>
               else
                 (case send_dali_commands_sequence commands_to_send of
                    Some e \<Rightarrow>
                      \<lparr>res_light = l'\<lparr>attr_available := False\<rparr>, res_counter = c,
                       res_sent = Some commands_to_send, res_raised = None\<rparr>
                  | None \<Rightarrow>
                      \<lparr>res_light = l'\<lparr>is_on := True\<rparr>, res_counter = c,
                       res_sent = Some commands_to_send, res_raised = None\<rparr>)))"

section \<open>Turning a light off\<close>

text \<open>The branch on the protocol in \<^verbatim>\<open>async_turn_off\<close>; building these lists cannot fail.\<close>

definition off_commands :: "light \<Rightarrow> int \<Rightarrow> message list \<times> int" where
  "off_commands l current_id =
     (if protocol l \<in> set [PROTOCOL_DMX_RGB, PROTOCOL_DMX_RGBW, PROTOCOL_DMX_WHITE] then
        (if protocol l = PROTOCOL_DMX_RGB then
           (let (id1, c1) = get_message_id current_id
            in ([create_dmx_message id1 0 2 (address l) 1 [0, 0, 0] 25], c1))
         else if protocol l = PROTOCOL_DMX_RGBW then
           (let (id1, c1) = get_message_id current_id
            in ([create_dmx_message id1 0 2 (address l) 1 [0, 0, 0, 0] 25], c1))
         else if protocol l = PROTOCOL_DMX_WHITE then
           (let (id1, c1) = get_message_id current_id
            in ([create_dmx_message id1 0 2 (address l) 1 [0] 25], c1))
         else ([], current_id))
      else if protocol l \<in> set [PROTOCOL_DALI_DT8_XY, PROTOCOL_DALI_DT8_CCT, PROTOCOL_DALI_WHITE]
      then
        (let dali_arc_level = 0;
             (id1, c1) = get_message_id current_id
         in ([create_dali_message id1 (line l) (address l) (Some DALI_ARC_LEVEL)
                (Some [dali_arc_level]) None None],
             c1))
      else if protocol l = PROTOCOL_DALI_RGB then
        (let channel_count = (3::int);
             (id1, c1) = get_message_id current_id;
             (id2, c2) = get_message_id c1;
             (id3, c3) = get_message_id c2
         in ([create_dali_message id1 (line l) (address l + 0) (Some DALI_ARC_LEVEL)
                (Some [0]) None None,
              create_dali_message id2 (line l) (address l + 1) (Some DALI_ARC_LEVEL)
                (Some [0]) None None,
              create_dali_message id3 (line l) (address l + 2) (Some DALI_ARC_LEVEL)
                (Some [0]) None None],
             c3))
      else if protocol l = PROTOCOL_DALI_RGBW then
        (let channel_count = (4::int);
             (id1, c1) = get_message_id current_id;
             (id2, c2) = get_message_id c1;
             (id3, c3) = get_message_id c2;
             (id4, c4) = get_message_id c3
         in ([create_dali_message id1 (line l) (address l + 0) (Some DALI_ARC_LEVEL)
                (Some [0]) None None,
              create_dali_message id2 (line l) (address l + 1) (Some DALI_ARC_LEVEL)
                (Some [0]) None None,
              create_dali_message id3 (line l) (address l + 2) (Some DALI_ARC_LEVEL)
                (Some [0]) None None,
              create_dali_message id4 (line l) (address l + 3) (Some DALI_ARC_LEVEL)
                (Some [0]) None None],
             c4))
      else
        (let (id1, c1) = get_message_id current_id
         in ([create_dali_message id1 (line l) (address l) (Some DALI_ARC_LEVEL)
                (Some [0]) None None],
             c1)))"

text \<open>\<^verbatim>\<open>async_turn_off\<close>\<close>

definition async_turn_off ::
  "(message list \<Rightarrow> exn option) \<Rightarrow> light \<Rightarrow> int \<Rightarrow> turn_result" where
  "async_turn_off send_dali_commands_sequence l current_id =
     (case off_commands l current_id of
        (commands_to_send, c) \<Rightarrow>
          if commands_to_send = [] then
            \<lparr>res_light = l, res_counter = c, res_sent = None, res_raised = None\<rparr>
          else
            (case send_dali_commands_sequence commands_to_send of
               Some e \<Rightarrow>
                 \<lparr>res_light = l\<lparr>attr_available := False\<rparr>, res_counter = c,
                  res_sent = Some commands_to_send, res_raised = None\<rparr>
             | None \<Rightarrow>
                 \<lparr>res_light = l\<lparr>is_on := False, brightness := 0\<rparr>, res_counter = c,
                  res_sent = Some commands_to_send, res_raised = None\<rparr>))"

text \<open>A transport that delivers every sequence.\<close>

definition send_ok :: "message list \<Rightarrow> exn option" where
  "send_ok commands = None"

text \<open>A transport that fails every sequence with the given exception.\<close>

definition send_fails :: "exn \<Rightarrow> message list \<Rightarrow> exn option" where
  "send_fails e commands = Some e"

text \<open>
  Two expressions of the colour branches, named for the statements below:
  \<^verbatim>\<open>int(channel * (brightness / 255.0))\<close>, which the \<^verbatim>\<open>DMX_RGB\<close>, \<^verbatim>\<open>DMX_RGBW\<close>,
  \<^verbatim>\<open>DALI_RGB\<close> and \<^verbatim>\<open>DALI_RGBW\<close> branches compute for every channel, and
  \<^verbatim>\<open>min(int(effective * (dali_max_val / ha_max)), dali_max_val)\<close>, which the two DALI
  branches apply to it.
\<close>

definition scaled_channel :: "int \<Rightarrow> int \<Rightarrow> int" where
  "scaled_channel channel b = py_int (fmul (of_int channel) (fdiv (of_int b) 255))"

definition dali_channel :: "int \<Rightarrow> int \<Rightarrow> int" where
  "dali_channel DALI_ARC_LEVEL_MAX effective =
     min (py_int (fmul (of_int effective) (fdiv (of_int DALI_ARC_LEVEL_MAX) 255)))
       DALI_ARC_LEVEL_MAX"

section \<open>The specification's formulas\<close>

text \<open>
  The specification states three scalings with rounding. They are written here as it
  words them, over the exact reals, to be compared with what the handlers compute.
\<close>

text \<open>\<^verbatim>\<open>round(brightness/255 * MAX)\<close>, the \<^verbatim>\<open>DALI_WHITE\<close> row.\<close>

definition spec_arc_level :: "int \<Rightarrow> int \<Rightarrow> int" where
  "spec_arc_level DALI_ARC_LEVEL_MAX b = py_round (of_int b / 255 * of_int DALI_ARC_LEVEL_MAX)"

text \<open>\<^verbatim>\<open>round(channel * (brightness/255) * (MAX/255))\<close>, the \<^verbatim>\<open>DALI_RGB\<close> row.\<close>

definition spec_dali_channel :: "int \<Rightarrow> int \<Rightarrow> int \<Rightarrow> int" where
  "spec_dali_channel DALI_ARC_LEVEL_MAX channel b =
     py_round (of_int channel * (of_int b / 255) * (of_int DALI_ARC_LEVEL_MAX / 255))"


text \<open>
  The truncation of \<^verbatim>\<open>channel * brightness/255\<close>, the \<^verbatim>\<open>DMX_RGB\<close> policy as the
  specification words it.
\<close>

definition spec_dmx_level :: "int \<Rightarrow> int \<Rightarrow> int" where
  "spec_dmx_level channel b = py_int (of_int channel * of_int b / 255)"

section \<open>Properties of the rounding\<close>

lemma bitlength_bounds:
  "0 < n \<Longrightarrow> 2 ^ (bitlength n - 1) \<le> n \<and> n < 2 ^ bitlength n"
proof (induction n rule: bitlength.induct)
  case (1 n)
  show ?case
  proof (cases "n div 2 = 0")
    case True
    with "1.prems" have "n = 1" by presburger
    then show ?thesis by (simp add: bitlength.simps)
  next
    case False
    then have pos: "0 < n div 2" by simp
    from "1.prems" have n0: "n \<noteq> 0" by simp
    from "1.IH" [OF n0 pos] have lo: "2 ^ (bitlength (n div 2) - 1) \<le> n div 2"
      and hi: "n div 2 < 2 ^ bitlength (n div 2)" by simp_all
    have bl: "bitlength n = Suc (bitlength (n div 2))"
      using n0 by (subst bitlength.simps) simp
    have bpos: "0 < bitlength (n div 2)"
      using False by (subst bitlength.simps) simp
    have "2 * 2 ^ (bitlength (n div 2) - 1) \<le> 2 * (n div 2)" using lo by simp
    also have "\<dots> \<le> n" by presburger
    finally have a: "2 ^ (bitlength n - 1) \<le> n"
      using bl bpos by (simp add: power_eq_if)
    have "Suc (n div 2) \<le> 2 ^ bitlength (n div 2)" using hi by simp
    then have "2 * Suc (n div 2) \<le> 2 * 2 ^ bitlength (n div 2)" by simp
    moreover have "n < 2 * Suc (n div 2)" by presburger
    ultimately have b: "n < 2 ^ bitlength n" using bl by simp
    from a b show ?thesis by simp
  qed
qed

lemma bitlength_pos: "0 < n \<Longrightarrow> 0 < bitlength n"
  by (subst bitlength.simps) simp

lemma floor_pow2_bounds:
  fixes y :: real
  assumes "1 \<le> y"
  defines "j \<equiv> bitlength (nat \<lfloor>y\<rfloor>) - 1"
  shows "2 ^ j \<le> y" and "y < 2 ^ Suc j"
proof -
  define k where "k = nat \<lfloor>y\<rfloor>"
  have kpos: "0 < k" using assms(1) by (simp add: k_def)
  have ky: "real k \<le> y" "y < real k + 1"
    using assms(1) by (simp_all add: k_def)
  have j: "j = bitlength k - 1" by (simp add: j_def k_def)
  from bitlength_bounds [OF kpos] have lo: "2 ^ j \<le> k" and hi: "k < 2 ^ bitlength k"
    unfolding j by blast+
  have sj: "Suc j = bitlength k" using bitlength_pos [OF kpos] by (simp add: j)
  have "real (2 ^ j) \<le> real k" using lo by (simp only: of_nat_le_iff)
  also note ky(1)
  finally show "2 ^ j \<le> y" by simp
  have "Suc k \<le> 2 ^ Suc j" using hi unfolding sj by simp
  then have "real (Suc k) \<le> real (2 ^ Suc j)" by (simp only: of_nat_le_iff)
  with ky(2) show "y < 2 ^ Suc j" by simp
qed

lemma float_exponent_bounds:
  assumes "0 < x"
  shows "2 powi float_exponent x \<le> x" and "x < 2 powi (float_exponent x + 1)"
proof -
  have "2 powi float_exponent x \<le> x \<and> x < 2 powi (float_exponent x + 1)"
  proof (cases "1 \<le> x")
    case True
    define j where "j = bitlength (nat \<lfloor>x\<rfloor>) - 1"
    have kpos: "0 < nat \<lfloor>x\<rfloor>" using True by simp
    have e: "float_exponent x = int j"
      using True bitlength_pos [OF kpos] by (simp add: float_exponent_def j_def)
    from floor_pow2_bounds [OF True] have "2 ^ j \<le> x" "x < 2 ^ Suc j"
      unfolding j_def by blast+
    then show ?thesis
      unfolding e by (simp add: power_int_add)
  next
    case False
    define y where "y = 1 / x"
    have y1: "1 \<le> y" using False assms by (simp add: y_def)
    define j where "j = bitlength (nat \<lfloor>y\<rfloor>) - 1"
    have kpos: "0 < nat \<lfloor>y\<rfloor>" using y1 by simp
    have ij: "int (bitlength (nat \<lfloor>1 / x\<rfloor>)) - 1 = int j"
      using bitlength_pos [OF kpos] by (simp add: j_def y_def)
    from floor_pow2_bounds [OF y1] have "2 ^ j \<le> y" "y < 2 ^ Suc j"
      unfolding j_def by blast+
    then have lo: "x * 2 ^ j \<le> 1" and hi: "1 < x * 2 ^ Suc j"
      using assms by (simp_all add: y_def field_simps)
    show ?thesis
    proof (cases "x * 2 ^ j = 1")
      case True
      then have e: "float_exponent x = - int j"
        using False ij by (simp add: float_exponent_def Let_def)
      have x: "x = 1 / 2 ^ j" using True by (simp add: field_simps)
      have p: "(2::real) powi (- int j) = 1 / 2 ^ j"
        by (simp add: power_int_minus field_simps)
      have "(2::real) powi (- int j + 1) = 2 powi (- int j) * 2 powi 1"
        by (rule power_int_add) simp
      then have q: "(2::real) powi (- int j + 1) = 2 / 2 ^ j"
        unfolding p by simp
      show ?thesis unfolding e p q using x by (simp add: divide_strict_right_mono)
    next
      case ne: False
      then have e: "float_exponent x = - int j - 1"
        using False ij by (simp add: float_exponent_def Let_def)
      have "(2::real) powi (- int j - 1) = 2 powi (- int j) / 2 powi 1"
        by (rule power_int_diff) simp
      then have p: "(2::real) powi (- int j - 1) = 1 / 2 ^ Suc j"
        by (simp add: power_int_minus field_simps)
      have q: "(2::real) powi (- int j - 1 + 1) = 1 / 2 ^ j"
        by (simp add: power_int_minus field_simps)
      have "x * 2 ^ j < 1" using lo ne by simp
      then show ?thesis unfolding e p q using hi by (simp add: field_simps)
    qed
  qed
  then show "2 powi float_exponent x \<le> x" and "x < 2 powi (float_exponent x + 1)"
    by blast+
qed

lemma powi2_mono: "a \<le> b \<Longrightarrow> (2::real) powi a \<le> 2 powi b"
  by (rule power_int_increasing) simp_all

lemma powi2_pos: "0 < (2::real) powi a"
  by simp

lemma float_exponent_unique:
  assumes "2 powi e \<le> x" and "x < 2 powi (e + 1)"
  shows "float_exponent x = e"
proof -
  have xpos: "0 < x" using assms(1) powi2_pos [of e] by linarith
  let ?f = "float_exponent x"
  note b = float_exponent_bounds [OF xpos]
  have "\<not> ?f + 1 \<le> e"
  proof
    assume "?f + 1 \<le> e"
    then have "(2::real) powi (?f + 1) \<le> 2 powi e" by (rule powi2_mono)
    with b(2) assms(1) show False by linarith
  qed
  moreover have "\<not> e + 1 \<le> ?f"
  proof
    assume "e + 1 \<le> ?f"
    then have "(2::real) powi (e + 1) \<le> 2 powi ?f" by (rule powi2_mono)
    with b(1) assms(2) show False by linarith
  qed
  ultimately show ?thesis by linarith
qed

lemma round_half_even_of_int: "round_half_even (of_int n) = n"
  by (simp add: round_half_even_def)

lemma round_half_even_cases:
  "round_half_even s = \<lfloor>s\<rfloor> \<or> round_half_even s = \<lfloor>s\<rfloor> + 1"
  by (simp add: round_half_even_def Let_def)

lemma round_half_even_mono:
  assumes "s \<le> t"
  shows "round_half_even s \<le> round_half_even t"
proof (cases "\<lfloor>s\<rfloor> = \<lfloor>t\<rfloor>")
  case True
  have "s - of_int \<lfloor>t\<rfloor> \<le> t - of_int \<lfloor>t\<rfloor>" using assms by simp
  then show ?thesis
    using True by (auto simp add: round_half_even_def Let_def)
next
  case False
  with floor_mono [OF assms] have "\<lfloor>s\<rfloor> + 1 \<le> \<lfloor>t\<rfloor>" by linarith
  moreover have "round_half_even s \<le> \<lfloor>s\<rfloor> + 1"
    using round_half_even_cases [of s] by linarith
  moreover have "\<lfloor>t\<rfloor> \<le> round_half_even t"
    using round_half_even_cases [of t] by linarith
  ultimately show ?thesis by linarith
qed

lemma round_half_even_ge: "of_int n \<le> s \<Longrightarrow> n \<le> round_half_even s"
  using round_half_even_mono [of "of_int n" s] by (simp add: round_half_even_of_int)

lemma round_half_even_le: "s \<le> of_int n \<Longrightarrow> round_half_even s \<le> n"
  using round_half_even_mono [of s "of_int n"] by (simp add: round_half_even_of_int)

lemma round_half_even_minus: "round_half_even (- s) = - round_half_even s"
proof (cases "s = of_int \<lfloor>s\<rfloor>")
  case True
  then obtain n where s: "s = of_int n" ..
  have "round_half_even (of_int (- n)) = - n" by (rule round_half_even_of_int)
  then show ?thesis unfolding s by (simp add: round_half_even_of_int)
next
  case False
  then have lt: "of_int \<lfloor>s\<rfloor> < s" using of_int_floor_le [of s] by linarith
  have gt: "s < of_int \<lfloor>s\<rfloor> + 1" by linarith
  have f: "\<lfloor>- s\<rfloor> = - \<lfloor>s\<rfloor> - 1"
  proof (rule floor_unique)
    show "of_int (- \<lfloor>s\<rfloor> - 1) \<le> - s" by simp linarith
    show "- s < of_int (- \<lfloor>s\<rfloor> - 1) + 1" using lt by simp
  qed
  show ?thesis
    unfolding round_half_even_def Let_def f by (auto simp add: field_simps)
qed

lemma fl_zero: "fl 0 = 0"
  by (simp add: fl_def)

lemma fl_minus: "fl (- x) = - fl x"
  by (simp add: fl_def Let_def round_half_even_minus)

lemma powi2_add: "(2::real) powi a * 2 powi b = 2 powi (a + b)"
  by (simp add: power_int_add)

lemma fl_binade:
  assumes lo: "2 powi e \<le> x" and hi: "x < 2 powi (e + 1)"
  shows "2 powi e \<le> fl x" and "fl x \<le> 2 powi (e + 1)"
proof -
  have xpos: "0 < x" using lo powi2_pos [of e] by linarith
  have e: "float_exponent x = e"
    using lo hi by (rule float_exponent_unique)
  define s where "s = x * 2 powi (52 - e)"
  have flx: "fl x = of_int (round_half_even s) * 2 powi (e - 52)"
    using xpos by (simp add: fl_def Let_def e s_def)
  have c1: "(2::real) powi e * 2 powi (52 - e) = 2 powi 52"
    using powi2_add [of e "52 - e"] by simp
  have c2: "(2::real) powi (e + 1) * 2 powi (52 - e) = 2 powi 53"
    using powi2_add [of "e + 1" "52 - e"] by (simp add: add.commute)
  have "2 powi e * 2 powi (52 - e) \<le> s"
    unfolding s_def using lo by (simp add: mult_right_mono)
  then have slo: "of_int (2 ^ 52) \<le> s" unfolding c1 by simp
  have "s \<le> 2 powi (e + 1) * 2 powi (52 - e)"
    unfolding s_def using hi by (simp add: mult_right_mono)
  then have shi: "s \<le> of_int (2 ^ 53)" unfolding c2 by simp
  have d1: "(2::real) powi 52 * 2 powi (e - 52) = 2 powi e"
    using powi2_add [of 52 "e - 52"] by simp
  have d2: "(2::real) powi 53 * 2 powi (e - 52) = 2 powi (e + 1)"
    using powi2_add [of 53 "e - 52"] by (simp add: add.commute)
  have "(2::int) ^ 52 \<le> round_half_even s" using slo by (rule round_half_even_ge)
  then have "(of_int (2 ^ 52) :: real) \<le> of_int (round_half_even s)"
    by (simp only: of_int_le_iff)
  then have "2 powi 52 * 2 powi (e - 52) \<le> fl x"
    unfolding flx by (simp add: mult_right_mono)
  then show "2 powi e \<le> fl x" unfolding d1 .
  have "round_half_even s \<le> (2::int) ^ 53" using shi by (rule round_half_even_le)
  then have "(of_int (round_half_even s) :: real) \<le> of_int (2 ^ 53)"
    by (simp only: of_int_le_iff)
  then have "fl x \<le> 2 powi 53 * 2 powi (e - 52)"
    unfolding flx by (simp add: mult_right_mono)
  then show "fl x \<le> 2 powi (e + 1)" unfolding d2 .
qed

lemma fl_pos:
  assumes "0 < x"
  shows "0 < fl x"
proof -
  have "2 powi float_exponent x \<le> fl x"
    using float_exponent_bounds [OF assms] by (rule fl_binade(1))
  with powi2_pos [of "float_exponent x"] show ?thesis by linarith
qed

lemma fl_mono_pos:
  assumes "0 < x" and "x \<le> y"
  shows "fl x \<le> fl y"
proof -
  have ypos: "0 < y" using assms by linarith
  define ex where "ex = float_exponent x"
  define ey where "ey = float_exponent y"
  note bx = float_exponent_bounds [OF assms(1), folded ex_def]
  note by' = float_exponent_bounds [OF ypos, folded ey_def]
  have le: "ex \<le> ey"
  proof (rule ccontr)
    assume "\<not> ex \<le> ey"
    then have "ey + 1 \<le> ex" by simp
    then have "(2::real) powi (ey + 1) \<le> 2 powi ex" by (rule powi2_mono)
    with bx(1) by'(2) assms(2) show False by linarith
  qed
  show ?thesis
  proof (cases "ex = ey")
    case True
    have "x * 2 powi (52 - ey) \<le> y * 2 powi (52 - ey)"
      using assms(2) by (simp add: mult_right_mono)
    then have "round_half_even (x * 2 powi (52 - ey)) \<le> round_half_even (y * 2 powi (52 - ey))"
      by (rule round_half_even_mono)
    then have "(of_int (round_half_even (x * 2 powi (52 - ey))) :: real)
        \<le> of_int (round_half_even (y * 2 powi (52 - ey)))"
      by (simp only: of_int_le_iff)
    then show ?thesis
      using assms(1) ypos True
      by (simp add: fl_def Let_def ex_def [symmetric] ey_def [symmetric] mult_right_mono)
  next
    case False
    with le have "ex + 1 \<le> ey" by simp
    then have "(2::real) powi (ex + 1) \<le> 2 powi ey" by (rule powi2_mono)
    moreover have "fl x \<le> 2 powi (ex + 1)" using bx by (rule fl_binade(2))
    moreover have "2 powi ey \<le> fl y" using by' by (rule fl_binade(1))
    ultimately show ?thesis by linarith
  qed
qed

lemma fl_mono:
  assumes "x \<le> y"
  shows "fl x \<le> fl y"
proof -
  consider "0 < x" | "x = 0" | "x < 0" "y < 0" | "x < 0" "0 \<le> y" by linarith
  then show ?thesis
  proof cases
    case 1
    then show ?thesis using assms by (rule fl_mono_pos)
  next
    case 2
    then show ?thesis
      using assms fl_pos [of y] by (cases "y = 0") (simp_all add: fl_zero less_imp_le)
  next
    case 3
    then have "fl (- y) \<le> fl (- x)" using assms by (intro fl_mono_pos) simp_all
    then show ?thesis by (simp add: fl_minus)
  next
    case 4
    have "0 < fl (- x)" using 4(1) by (intro fl_pos) simp
    then have "fl x < 0" by (simp add: fl_minus)
    moreover have "0 \<le> fl y"
      using 4(2) fl_pos [of y] by (cases "y = 0") (simp_all add: fl_zero less_imp_le)
    ultimately show ?thesis by linarith
  qed
qed

lemma fl_of_int_pos:
  assumes "0 < n" and "n < 2 ^ 53"
  shows "fl (of_int n) = of_int n"
proof -
  define e where "e = float_exponent (of_int n)"
  have npos: "(0::real) < of_int n" using assms(1) by simp
  note b = float_exponent_bounds [OF npos, folded e_def]
  have "(of_int n :: real) < of_int (2 ^ 53)" using assms(2) by (simp only: of_int_less_iff)
  then have "(2::real) powi e < 2 powi 53" using b(1) by simp
  then have "e < 53" by (rule power_int_le_imp_less_exp [rotated]) simp_all
  then have le: "0 \<le> 52 - e" by simp
  have p: "(2::real) powi (52 - e) = of_int (2 ^ nat (52 - e))"
    using le by (simp add: power_int_def)
  have "round_half_even (of_int n * 2 powi (52 - e)) = n * 2 ^ nat (52 - e)"
    unfolding p of_int_mult [symmetric] by (rule round_half_even_of_int)
  then have "fl (of_int n) = of_int n * (2 powi (52 - e) * 2 powi (e - 52))"
    using npos by (simp add: fl_def Let_def e_def [symmetric] p)
  also have "(2::real) powi (52 - e) * 2 powi (e - 52) = 1"
    using powi2_add [of "52 - e" "e - 52"] by simp
  finally show ?thesis by simp
qed

lemma fl_of_int:
  assumes "\<bar>n\<bar> < 2 ^ 53"
  shows "fl (of_int n) = of_int n"
proof -
  consider "0 < n" | "n = 0" | "n < 0" by linarith
  then show ?thesis
  proof cases
    case 1
    then show ?thesis using assms by (intro fl_of_int_pos) simp_all
  next
    case 2
    then show ?thesis by (simp add: fl_zero)
  next
    case 3
    then have "fl (of_int (- n)) = of_int (- n)" using assms by (intro fl_of_int_pos) simp_all
    then show ?thesis by (simp add: fl_minus)
  qed
qed

lemma round_half_even_nearest:
  assumes "\<bar>s - of_int m\<bar> < 1 / 2 \<or> (\<bar>s - of_int m\<bar> = 1 / 2 \<and> even m)"
  shows "round_half_even s = m"
proof (cases "of_int m \<le> s")
  case True
  with assms have hi: "s \<le> of_int m + 1 / 2" by auto
  then have f: "\<lfloor>s\<rfloor> = m" using True by (intro floor_unique) simp_all
  show ?thesis
    using assms True unfolding round_half_even_def Let_def f by auto
next
  case False
  with assms have lo: "of_int m - 1 / 2 \<le> s" by auto
  have f: "\<lfloor>s\<rfloor> = m - 1"
  proof (rule floor_unique)
    show "of_int (m - 1) \<le> s" using lo by simp
    show "s < of_int (m - 1) + 1" using False by simp
  qed
  show ?thesis
    using assms False unfolding round_half_even_def Let_def f by auto
qed

lemma fl_eqI:
  fixes k :: nat
  assumes lo: "2 ^ 52 \<le> \<bar>x\<bar> * 2 ^ k" and hi: "\<bar>x\<bar> * 2 ^ k < 2 ^ 53"
    and near: "\<bar>x * 2 ^ k - of_int m\<bar> < 1 / 2 \<or> (\<bar>x * 2 ^ k - of_int m\<bar> = 1 / 2 \<and> even m)"
  shows "fl x = of_int m / 2 ^ k"
proof -
  define e where "e = 52 - int k"
  have k: "(2::real) powi (52 - e) = 2 ^ k" by (simp add: e_def)
  have xne: "x \<noteq> 0" using lo by auto
  have p1: "(2::real) powi e * 2 ^ k = 2 ^ 52"
    using powi2_add [of e "int k"] by (simp add: e_def)
  have p2: "(2::real) powi (e + 1) * 2 ^ k = 2 ^ 53"
    using powi2_add [of "e + 1" "int k"] by (simp add: e_def)
  have "2 powi e * 2 ^ k \<le> \<bar>x\<bar> * 2 ^ k" using lo p1 by simp
  then have a: "2 powi e \<le> \<bar>x\<bar>" by simp
  have "\<bar>x\<bar> * 2 ^ k < 2 powi (e + 1) * 2 ^ k" using hi p2 by simp
  then have b: "\<bar>x\<bar> < 2 powi (e + 1)" by simp
  have ex: "float_exponent \<bar>x\<bar> = e" using a b by (rule float_exponent_unique)
  have r: "round_half_even (x * 2 ^ k) = m" using near by (rule round_half_even_nearest)
  have q: "(2::real) powi (e - 52) = 1 / 2 ^ k"
    by (simp add: e_def power_int_minus field_simps)
  show ?thesis
    using xne by (simp add: fl_def Let_def ex k r q)
qed

lemma fl_one: "fl 1 = 1"
  using fl_of_int [of 1] by simp

lemma fl_numeral: "numeral k < (2::int) ^ 53 \<Longrightarrow> fl (numeral k) = numeral k"
  using fl_of_int [of "numeral k"] by simp

lemma py_int_of_int: "py_int (of_int n) = n"
  by (simp add: py_int_def)


lemma round_half_even_error: "\<bar>of_int (round_half_even s) - s\<bar> \<le> 1 / 2"
proof -
  have "of_int \<lfloor>s\<rfloor> \<le> s" "s < of_int \<lfloor>s\<rfloor> + 1" by linarith+
  then show ?thesis
    unfolding round_half_even_def Let_def by (auto simp add: abs_le_iff)
qed

lemma fl_error_pos:
  assumes "0 < x"
  shows "\<bar>fl x - x\<bar> \<le> x / 2 ^ 53"
proof -
  define e where "e = float_exponent x"
  define s where "s = x * 2 powi (52 - e)"
  note b = float_exponent_bounds [OF assms, folded e_def]
  have flx: "fl x = of_int (round_half_even s) * 2 powi (e - 52)"
    using assms by (simp add: fl_def Let_def e_def s_def)
  have "s * 2 powi (e - 52) = x * (2 powi (52 - e) * 2 powi (e - 52))"
    by (simp add: s_def)
  also have "(2::real) powi (52 - e) * 2 powi (e - 52) = 1"
    using powi2_add [of "52 - e" "e - 52"] by simp
  finally have x: "x = s * 2 powi (e - 52)" by simp
  have "fl x - s * 2 powi (e - 52) = (of_int (round_half_even s) - s) * 2 powi (e - 52)"
    unfolding flx by (simp add: algebra_simps)
  then have "fl x - x = (of_int (round_half_even s) - s) * 2 powi (e - 52)"
    using x by simp
  then have "\<bar>fl x - x\<bar> = \<bar>of_int (round_half_even s) - s\<bar> * 2 powi (e - 52)"
    by (simp add: abs_mult)
  also have "\<dots> \<le> 1 / 2 * 2 powi (e - 52)"
    using round_half_even_error [of s] by (intro mult_right_mono) simp_all
  also have "(1 / 2 :: real) * 2 powi (e - 52) = 2 powi e / 2 ^ 53"
    using powi2_add [of "e - 52" "- 1"] powi2_add [of "e - 53" 53]
    by (simp add: power_int_minus field_simps)
  also have "\<dots> \<le> x / 2 ^ 53"
    using b(1) by (simp add: divide_right_mono)
  finally show ?thesis .
qed

lemma fl_error: "\<bar>fl x - x\<bar> \<le> \<bar>x\<bar> / 2 ^ 53"
proof -
  consider "0 < x" | "x = 0" | "x < 0" by linarith
  then show ?thesis
  proof cases
    case 1
    then show ?thesis using fl_error_pos [of x] by simp
  next
    case 2
    then show ?thesis by (simp add: fl_zero)
  next
    case 3
    then have "\<bar>fl (- x) - (- x)\<bar> \<le> (- x) / 2 ^ 53" by (intro fl_error_pos) simp
    then show ?thesis using 3 by (simp add: fl_minus abs_minus_commute)
  qed
qed

lemma scaled_error:
  fixes b m :: int
  assumes "0 \<le> b" "b \<le> 255" "0 \<le> m" "m \<le> 255"
  shows "\<bar>fl (fl (of_int b / 255) * of_int m) - of_int (b * m) / 255\<bar> \<le> 511 / 2 ^ 53"
proof -
  define u :: real where "u = 1 / 2 ^ 53"
  define q :: real where "q = of_int b / 255"
  define f1 where "f1 = fl q"
  define p where "p = f1 * of_int m"
  define f2 where "f2 = fl p"
  have q01: "0 \<le> q" "q \<le> 1" using assms by (simp_all add: q_def)
  have m: "(0::real) \<le> of_int m" "(of_int m :: real) \<le> 255" using assms by simp_all
  have upos: "0 < u" "u \<le> 1 / 255" by (simp_all add: u_def)
  have "\<bar>f1 - q\<bar> \<le> \<bar>q\<bar> * u" using fl_error [of q] by (simp add: f1_def u_def)
  also have "\<dots> \<le> 1 * u" using q01 upos by (intro mult_right_mono) simp_all
  finally have h1: "\<bar>f1 - q\<bar> \<le> u" by simp
  have "\<bar>p - q * of_int m\<bar> = \<bar>f1 - q\<bar> * of_int m"
    using m by (simp add: p_def abs_mult flip: left_diff_distrib)
  also have "\<dots> \<le> u * 255"
    using h1 m by (intro mult_mono) simp_all
  finally have h2: "\<bar>p - q * of_int m\<bar> \<le> 255 * u" by simp
  have "q * of_int m \<le> 1 * 255" using q01 m by (intro mult_mono) simp_all
  moreover have "0 \<le> q * of_int m" using q01 m by simp
  ultimately have h3: "\<bar>p\<bar> \<le> 256" using h2 upos by (simp add: abs_le_iff)
  have "\<bar>f2 - p\<bar> \<le> \<bar>p\<bar> * u" using fl_error [of p] by (simp add: f2_def u_def)
  also have "\<dots> \<le> 256 * u" using h3 upos by (intro mult_right_mono) simp_all
  finally have h4: "\<bar>f2 - p\<bar> \<le> 256 * u" .
  have "\<bar>f2 - q * of_int m\<bar> \<le> 511 * u" using h2 h4 by linarith
  moreover have "q * of_int m = of_int (b * m) / 255" by (simp add: q_def)
  ultimately show ?thesis by (simp add: f2_def p_def f1_def q_def u_def)
qed

lemma fl_nonneg: "0 \<le> x \<Longrightarrow> 0 \<le> fl x"
  using fl_mono [of 0 x] by (simp add: fl_zero)

lemma div_mod_255_real:
  fixes n :: int
  shows "(of_int n :: real) / 255 = of_int (n div 255) + of_int (n mod 255) / 255"
proof -
  have "(of_int n :: real) = of_int (255 * (n div 255) + n mod 255)"
    by (simp only: mult_div_mod_eq)
  also have "\<dots> = 255 * of_int (n div 255) + of_int (n mod 255)"
    by (simp only: of_int_add of_int_mult of_int_numeral)
  finally show ?thesis by (simp add: field_simps)
qed

lemma trunc_scaled_bounds:
  fixes b m :: int
  assumes "0 \<le> b" "b \<le> 255" "0 \<le> m" "m \<le> 255"
  shows "b * m div 255 - 1 \<le> py_int (fl (fl (of_int b / 255) * of_int m))"
    and "py_int (fl (fl (of_int b / 255) * of_int m)) \<le> b * m div 255"
    and "b * m mod 255 \<noteq> 0 \<Longrightarrow> py_int (fl (fl (of_int b / 255) * of_int m)) = b * m div 255"
proof -
  define f2 where "f2 = fl (fl (of_int b / 255) * of_int m)"
  define k where "k = b * m div 255"
  define r where "r = b * m mod 255"
  have r: "0 \<le> r" "r \<le> 254" by (simp_all add: r_def)
  have rr: "(0::real) \<le> of_int r" "(of_int r :: real) \<le> 254" using r by simp_all
  have ex: "(of_int (b * m) :: real) / 255 = of_int k + of_int r / 255"
    unfolding k_def r_def by (rule div_mod_255_real)
  define d :: real where "d = 511 / 2 ^ 53"
  have small: "d < 1 / 255" by (simp add: d_def)
  have err: "\<bar>f2 - (of_int k + of_int r / 255)\<bar> \<le> d"
    using scaled_error [OF assms] unfolding f2_def ex d_def .
  have nonneg: "0 \<le> f2"
    unfolding f2_def using assms by (intro fl_nonneg mult_nonneg_nonneg) simp_all
  have py: "py_int f2 = \<lfloor>f2\<rfloor>" using nonneg by (simp add: py_int_def)
  have lo: "of_int (k - 1) \<le> f2"
  proof -
    have "of_int k + of_int r / 255 - d \<le> f2" using err by linarith
    moreover have "(0::real) \<le> of_int r / 255" using rr by simp
    ultimately show ?thesis using small by simp
  qed
  have hi: "f2 < of_int k + 1"
  proof -
    have "f2 \<le> of_int k + of_int r / 255 + d" using err by linarith
    moreover have "of_int r / 255 \<le> (254 :: real) / 255" using rr by simp
    ultimately show ?thesis using small by linarith
  qed
  show "b * m div 255 - 1 \<le> py_int (fl (fl (of_int b / 255) * of_int m))"
    using lo unfolding py f2_def [symmetric] k_def [symmetric] by (simp add: le_floor_iff)
  show "py_int (fl (fl (of_int b / 255) * of_int m)) \<le> b * m div 255"
    using hi unfolding py f2_def [symmetric] k_def [symmetric] by (simp add: floor_le_iff)
  show "py_int (fl (fl (of_int b / 255) * of_int m)) = b * m div 255" if "b * m mod 255 \<noteq> 0"
  proof -
    from that r have "1 \<le> r" by (simp add: r_def)
    then have "(1::real) \<le> of_int r" by simp
    then have "(1::real) / 255 \<le> of_int r / 255" by simp
    moreover have "of_int k + of_int r / 255 - d \<le> f2" using err by linarith
    ultimately have "of_int k \<le> f2" using small by linarith
    then have "\<lfloor>f2\<rfloor> = k" using hi by (intro floor_unique) simp_all
    then show ?thesis unfolding py f2_def [symmetric] k_def [symmetric] by simp
  qed
qed

lemma fdiv_0: "fdiv 0 x = 0"
  by (simp add: fdiv_def fl_zero)

lemma fmul_0_left: "fmul 0 x = 0"
  by (simp add: fmul_def fl_zero)

lemma fmul_0_right: "fmul x 0 = 0"
  by (simp add: fmul_def fl_zero)

lemma fdiv_255_255: "fdiv 255 255 = 1"
  by (simp add: fdiv_def fl_one)

lemma fmul_1_of_int: "\<bar>n\<bar> < 2 ^ 53 \<Longrightarrow> fmul 1 (of_int n) = of_int n"
  by (simp add: fmul_def fl_of_int)

lemma fmul_of_int_1: "\<bar>n\<bar> < 2 ^ 53 \<Longrightarrow> fmul (of_int n) 1 = of_int n"
  by (simp add: fmul_def fl_of_int)

section \<open>Evaluations of the rounding at the inputs used below\<close>

lemma calc_1: "fdiv 1 255 = (282578800148737 / 72057594037927936)"
  unfolding fadd_def fsub_def fmul_def fdiv_def
  using fl_eqI [of "1 / 255" 60 "4521260802379792"] by simp

lemma calc_2: "fmul (282578800148737 / 72057594037927936) 254 = (280371153272575 / 281474976710656)"
  unfolding fadd_def fsub_def fmul_def fdiv_def
  using fl_eqI [of "(282578800148737 / 72057594037927936) * 254" 53 "8971876904722400"] by simp

lemma calc_3: "fdiv 128 255 = (282578800148737 / 562949953421312)"
  unfolding fadd_def fsub_def fmul_def fdiv_def
  using fl_eqI [of "128 / 255" 53 "4521260802379792"] by simp

lemma calc_4: "fmul 255 (282578800148737 / 562949953421312) = 128"
  unfolding fadd_def fsub_def fmul_def fdiv_def
  using fl_eqI [of "255 * (282578800148737 / 562949953421312)" 46 "9007199254740992"] by simp

lemma calc_5: "fdiv 254 255 = (280371153272575 / 281474976710656)"
  unfolding fadd_def fsub_def fmul_def fdiv_def
  using fl_eqI [of "254 / 255" 53 "8971876904722400"] by simp

lemma calc_6: "fmul 128 (280371153272575 / 281474976710656) = (280371153272575 / 2199023255552)"
  unfolding fadd_def fsub_def fmul_def fdiv_def
  using fl_eqI [of "128 * (280371153272575 / 281474976710656)" 46 "8971876904722400"] by simp

lemma calc_7: "fmul 255 (280371153272575 / 281474976710656) = 254"
  unfolding fadd_def fsub_def fmul_def fdiv_def
  using fl_eqI [of "255 * (280371153272575 / 281474976710656)" 45 "8936830510563328"] by simp

lemma calc_8: "fmul 0 (282578800148737 / 562949953421312) = 0"
  by (simp add: fadd_def fsub_def fmul_def fdiv_def fl_zero)

lemma calc_9: "fmul 0 (280371153272575 / 281474976710656) = 0"
  by (simp add: fadd_def fsub_def fmul_def fdiv_def fl_zero)

lemma calc_10: "fmul 255 (282578800148737 / 72057594037927936) = 1"
  unfolding fadd_def fsub_def fmul_def fdiv_def
  using fl_eqI [of "255 * (282578800148737 / 72057594037927936)" 53 "9007199254740992"] by simp

lemma calc_11: "fmul 1 (280371153272575 / 281474976710656) = (280371153272575 / 281474976710656)"
  unfolding fadd_def fsub_def fmul_def fdiv_def
  using fl_eqI [of "1 * (280371153272575 / 281474976710656)" 53 "8971876904722400"] by simp

lemma calc_12: "fmul 0 (282578800148737 / 72057594037927936) = 0"
  by (simp add: fadd_def fsub_def fmul_def fdiv_def fl_zero)

lemma calc_13: "fdiv 155 255 = (5474964252881779 / 9007199254740992)"
  unfolding fadd_def fsub_def fmul_def fdiv_def
  using fl_eqI [of "155 / 255" 53 "5474964252881779"] by simp

lemma calc_14: "fmul 51 (5474964252881779 / 9007199254740992) = (8725724278030335 / 281474976710656)"
  unfolding fadd_def fsub_def fmul_def fdiv_def
  using fl_eqI [of "51 * (5474964252881779 / 9007199254740992)" 48 "8725724278030335"] by simp

lemma calc_15: "fmul 102 (5474964252881779 / 9007199254740992) = (8725724278030335 / 140737488355328)"
  unfolding fadd_def fsub_def fmul_def fdiv_def
  using fl_eqI [of "102 * (5474964252881779 / 9007199254740992)" 47 "8725724278030335"] by simp

lemma calc_16: "fmul 204 (5474964252881779 / 9007199254740992) = (8725724278030335 / 70368744177664)"
  unfolding fadd_def fsub_def fmul_def fdiv_def
  using fl_eqI [of "204 * (5474964252881779 / 9007199254740992)" 46 "8725724278030335"] by simp

lemma calc_17: "fdiv 1000000 6500 = (5412980321358769 / 35184372088832)"
  unfolding fadd_def fsub_def fmul_def fdiv_def
  using fl_eqI [of "1000000 / 6500" 45 "5412980321358769"] by simp

lemma calc_18: "fdiv 1000000 2000 = 500"
  unfolding fadd_def fsub_def fmul_def fdiv_def
  using fl_eqI [of "1000000 / 2000" 44 "8796093022208000"] by simp

lemma calc_19: "fdiv (- 200) (- 347) = (5191469311089909 / 9007199254740992)"
  unfolding fadd_def fsub_def fmul_def fdiv_def
  using fl_eqI [of "(- 200) / (- 347)" 53 "5191469311089909"] by simp

lemma calc_20: "fsub 1 (5191469311089909 / 9007199254740992) = (3815729943651083 / 9007199254740992)"
  unfolding fadd_def fsub_def fmul_def fdiv_def
  using fl_eqI [of "1 - (5191469311089909 / 9007199254740992)" 54 "7631459887302166"] by simp

lemma calc_21: "fmul (3815729943651083 / 9007199254740992) 65535 = (7631343440465507 / 274877906944)"
  unfolding fadd_def fsub_def fmul_def fdiv_def
  using fl_eqI [of "(3815729943651083 / 9007199254740992) * 65535" 38 "7631343440465507"] by simp

lemma calc_22: "fdiv 0 (- 347) = 0"
  by (simp add: fadd_def fsub_def fmul_def fdiv_def fl_zero)

lemma calc_23: "fsub 1 0 = 1"
  unfolding fadd_def fsub_def fmul_def fdiv_def
  using fl_eqI [of "1 - 0" 52 "4503599627370496"] by simp

lemma calc_24: "fmul 1 65535 = 65535"
  unfolding fadd_def fsub_def fmul_def fdiv_def
  using fl_eqI [of "1 * 65535" 37 "9007061815787520"] by simp

lemma calc_25: "fdiv (- 347) (- 347) = 1"
  unfolding fadd_def fsub_def fmul_def fdiv_def
  using fl_eqI [of "(- 347) / (- 347)" 52 "4503599627370496"] by simp

lemma calc_26: "fsub 1 1 = 0"
  by (simp add: fadd_def fsub_def fmul_def fdiv_def fl_zero)

lemma calc_27: "fmul 0 65535 = 0"
  by (simp add: fadd_def fsub_def fmul_def fdiv_def fl_zero)

lemma calc_28: "fdiv 2500 (- 347) = (- (8111670798577983 / 1125899906842624))"
  unfolding fadd_def fsub_def fmul_def fdiv_def
  using fl_eqI [of "2500 / (- 347)" 50 "-8111670798577983"] by simp

lemma calc_29: "fsub 1 (- (8111670798577983 / 1125899906842624)) = (144337042272197 / 17592186044416)"
  unfolding fadd_def fsub_def fmul_def fdiv_def
  using fl_eqI [of "1 - (- (8111670798577983 / 1125899906842624))" 49 "4618785352710304"] by simp

lemma calc_30: "fmul (144337042272197 / 17592186044416) 65535 = (2309357437819441 / 4294967296)"
  unfolding fadd_def fsub_def fmul_def fdiv_def
  using fl_eqI [of "(144337042272197 / 17592186044416) * 65535" 33 "4618714875638882"] by simp

lemmas calc = calc_1 calc_2 calc_3 calc_4 calc_5 calc_6 calc_7 calc_8 calc_9 calc_10 calc_11 calc_12 calc_13 calc_14 calc_15 calc_16 calc_17 calc_18 calc_19 calc_20 calc_21 calc_22 calc_23 calc_24 calc_25 calc_26 calc_27 calc_28 calc_29 calc_30

lemma xycalc_1: "fl (649926 / 1000000) = (2927006491418397 / 4503599627370496)"
  unfolding fadd_def fsub_def fmul_def fdiv_def
  using fl_eqI [of "649926 / 1000000" 53 "5854012982836794"] by simp

lemma xycalc_2: "fl (103455 / 1000000) = (7454718391193835 / 72057594037927936)"
  unfolding fadd_def fsub_def fmul_def fdiv_def
  using fl_eqI [of "103455 / 1000000" 56 "7454718391193835"] by simp

lemma xycalc_3: "fl (197109 / 1000000) = (7101600151610969 / 36028797018963968)"
  unfolding fadd_def fsub_def fmul_def fdiv_def
  using fl_eqI [of "197109 / 1000000" 55 "7101600151610969"] by simp

lemma xycalc_4: "fl (234327 / 1000000) = (4221259959531385 / 18014398509481984)"
  unfolding fadd_def fsub_def fmul_def fdiv_def
  using fl_eqI [of "234327 / 1000000" 55 "8442519919062770"] by simp

lemma xycalc_5: "fl (743075 / 1000000) = (6693024586216663 / 9007199254740992)"
  unfolding fadd_def fsub_def fmul_def fdiv_def
  using fl_eqI [of "743075 / 1000000" 53 "6693024586216663"] by simp

lemma xycalc_6: "fl (22598 / 1000000) = (3256715020138191 / 144115188075855872)"
  unfolding fadd_def fsub_def fmul_def fdiv_def
  using fl_eqI [of "22598 / 1000000" 58 "6513430040276382"] by simp

lemma xycalc_7: "fl (53077 / 1000000) = (3824600918751101 / 72057594037927936)"
  unfolding fadd_def fsub_def fmul_def fdiv_def
  using fl_eqI [of "53077 / 1000000" 57 "7649201837502202"] by simp

lemma xycalc_8: "fl (1035763 / 1000000) = (4664661860844147 / 4503599627370496)"
  unfolding fadd_def fsub_def fmul_def fdiv_def
  using fl_eqI [of "1035763 / 1000000" 52 "4664661860844147"] by simp

lemma xycalc_9: "fl (45045 / 1000000) = (25358080651863 / 562949953421312)"
  unfolding fadd_def fsub_def fmul_def fdiv_def
  using fl_eqI [of "45045 / 1000000" 57 "6491668646876928"] by simp

lemma xycalc_10: "fl (55 / 1000) = (7926335344172073 / 144115188075855872)"
  unfolding fadd_def fsub_def fmul_def fdiv_def
  using fl_eqI [of "55 / 1000" 57 "7926335344172073"] by simp

lemma xycalc_11: "fl (1292 / 100) = (7273313398203351 / 562949953421312)"
  unfolding fadd_def fsub_def fmul_def fdiv_def
  using fl_eqI [of "1292 / 100" 49 "7273313398203351"] by simp

lemma xycalc_12: "fdiv 1 255 = (282578800148737 / 72057594037927936)"
  unfolding fadd_def fsub_def fmul_def fdiv_def
  using fl_eqI [of "1 / 255" 60 "4521260802379792"] by simp

lemma xycalc_13: "fdiv (282578800148737 / 72057594037927936) (7273313398203351 / 562949953421312) = (5599084584990455 / 18446744073709551616)"
  unfolding fadd_def fsub_def fmul_def fdiv_def
  using fl_eqI [of "(282578800148737 / 72057594037927936) / (7273313398203351 / 562949953421312)" 64 "5599084584990455"] by simp

lemma xycalc_14: "fadd 1 (7926335344172073 / 144115188075855872) = (4751297606875873 / 4503599627370496)"
  unfolding fadd_def fsub_def fmul_def fdiv_def
  using fl_eqI [of "1 + (7926335344172073 / 144115188075855872)" 52 "4751297606875873"] by simp

lemma xycalc_15: "fdiv (4751297606875873 / 4503599627370496) (4751297606875873 / 4503599627370496) = 1"
  unfolding fadd_def fsub_def fmul_def fdiv_def
  using fl_eqI [of "(4751297606875873 / 4503599627370496) / (4751297606875873 / 4503599627370496)" 52 "4503599627370496"] by simp

lemma xycalc_16: "fmul 1 (2927006491418397 / 4503599627370496) = (2927006491418397 / 4503599627370496)"
  unfolding fadd_def fsub_def fmul_def fdiv_def
  using fl_eqI [of "1 * (2927006491418397 / 4503599627370496)" 53 "5854012982836794"] by simp

lemma xycalc_17: "fmul 1 (7454718391193835 / 72057594037927936) = (7454718391193835 / 72057594037927936)"
  unfolding fadd_def fsub_def fmul_def fdiv_def
  using fl_eqI [of "1 * (7454718391193835 / 72057594037927936)" 56 "7454718391193835"] by simp

lemma xycalc_18: "fmul 1 (7101600151610969 / 36028797018963968) = (7101600151610969 / 36028797018963968)"
  unfolding fadd_def fsub_def fmul_def fdiv_def
  using fl_eqI [of "1 * (7101600151610969 / 36028797018963968)" 55 "7101600151610969"] by simp

lemma xycalc_19: "fadd (2927006491418397 / 4503599627370496) (7454718391193835 / 72057594037927936) = (6785852781736023 / 9007199254740992)"
  unfolding fadd_def fsub_def fmul_def fdiv_def
  using fl_eqI [of "(2927006491418397 / 4503599627370496) + (7454718391193835 / 72057594037927936)" 53 "6785852781736023"] by simp

lemma xycalc_20: "fadd (6785852781736023 / 9007199254740992) (7101600151610969 / 36028797018963968) = (8561252819638765 / 9007199254740992)"
  unfolding fadd_def fsub_def fmul_def fdiv_def
  using fl_eqI [of "(6785852781736023 / 9007199254740992) + (7101600151610969 / 36028797018963968)" 53 "8561252819638765"] by simp

lemma xycalc_21: "fmul 1 (4221259959531385 / 18014398509481984) = (4221259959531385 / 18014398509481984)"
  unfolding fadd_def fsub_def fmul_def fdiv_def
  using fl_eqI [of "1 * (4221259959531385 / 18014398509481984)" 55 "8442519919062770"] by simp

lemma xycalc_22: "fmul 1 (6693024586216663 / 9007199254740992) = (6693024586216663 / 9007199254740992)"
  unfolding fadd_def fsub_def fmul_def fdiv_def
  using fl_eqI [of "1 * (6693024586216663 / 9007199254740992)" 53 "6693024586216663"] by simp

lemma xycalc_23: "fmul 1 (3256715020138191 / 144115188075855872) = (3256715020138191 / 144115188075855872)"
  unfolding fadd_def fsub_def fmul_def fdiv_def
  using fl_eqI [of "1 * (3256715020138191 / 144115188075855872)" 58 "6513430040276382"] by simp

lemma xycalc_24: "fadd (4221259959531385 / 18014398509481984) (6693024586216663 / 9007199254740992) = (2200913641495589 / 2251799813685248)"
  unfolding fadd_def fsub_def fmul_def fdiv_def
  using fl_eqI [of "(4221259959531385 / 18014398509481984) + (6693024586216663 / 9007199254740992)" 53 "8803654565982356"] by simp

lemma xycalc_25: "fadd (2200913641495589 / 2251799813685248) (3256715020138191 / 144115188075855872) = 1"
  unfolding fadd_def fsub_def fmul_def fdiv_def
  using fl_eqI [of "(2200913641495589 / 2251799813685248) + (3256715020138191 / 144115188075855872)" 52 "4503599627370496"] by simp

lemma xycalc_26: "fmul 1 0 = 0"
  by (simp add: fadd_def fsub_def fmul_def fdiv_def fl_zero)

lemma xycalc_27: "fmul 1 (3824600918751101 / 72057594037927936) = (3824600918751101 / 72057594037927936)"
  unfolding fadd_def fsub_def fmul_def fdiv_def
  using fl_eqI [of "1 * (3824600918751101 / 72057594037927936)" 57 "7649201837502202"] by simp

lemma xycalc_28: "fmul 1 (4664661860844147 / 4503599627370496) = (4664661860844147 / 4503599627370496)"
  unfolding fadd_def fsub_def fmul_def fdiv_def
  using fl_eqI [of "1 * (4664661860844147 / 4503599627370496)" 52 "4664661860844147"] by simp

lemma xycalc_29: "fadd 0 (3824600918751101 / 72057594037927936) = (3824600918751101 / 72057594037927936)"
  unfolding fadd_def fsub_def fmul_def fdiv_def
  using fl_eqI [of "0 + (3824600918751101 / 72057594037927936)" 57 "7649201837502202"] by simp

lemma xycalc_30: "fadd (3824600918751101 / 72057594037927936) (4664661860844147 / 4503599627370496) = (4903699418266091 / 4503599627370496)"
  unfolding fadd_def fsub_def fmul_def fdiv_def
  using fl_eqI [of "(3824600918751101 / 72057594037927936) + (4664661860844147 / 4503599627370496)" 52 "4903699418266091"] by simp

lemma xycalc_31: "fadd (8561252819638765 / 9007199254740992) 1 = (4392113018594939 / 2251799813685248)"
  unfolding fadd_def fsub_def fmul_def fdiv_def
  using fl_eqI [of "(8561252819638765 / 9007199254740992) + 1" 52 "8784226037189878"] by simp

lemma xycalc_32: "fadd (4392113018594939 / 2251799813685248) (4903699418266091 / 4503599627370496) = (427747670482999 / 140737488355328)"
  unfolding fadd_def fsub_def fmul_def fdiv_def
  using fl_eqI [of "(4392113018594939 / 2251799813685248) + (4903699418266091 / 4503599627370496)" 51 "6843962727727984"] by simp

lemma xycalc_33: "fdiv (8561252819638765 / 9007199254740992) (427747670482999 / 140737488355328) = (5633644796477359 / 18014398509481984)"
  unfolding fadd_def fsub_def fmul_def fdiv_def
  using fl_eqI [of "(8561252819638765 / 9007199254740992) / (427747670482999 / 140737488355328)" 54 "5633644796477359"] by simp

lemma xycalc_34: "fdiv 1 (427747670482999 / 140737488355328) = (5927095283987585 / 18014398509481984)"
  unfolding fadd_def fsub_def fmul_def fdiv_def
  using fl_eqI [of "1 / (427747670482999 / 140737488355328)" 54 "5927095283987585"] by simp

lemma xycalc_35: "fmul (5633644796477359 / 18014398509481984) 65535 = (5633558833879757 / 274877906944)"
  unfolding fadd_def fsub_def fmul_def fdiv_def
  using fl_eqI [of "(5633644796477359 / 18014398509481984) * 65535" 38 "5633558833879757"] by simp

lemma xycalc_36: "fmul (5927095283987585 / 18014398509481984) 65535 = (5927004843690893 / 274877906944)"
  unfolding fadd_def fsub_def fmul_def fdiv_def
  using fl_eqI [of "(5927095283987585 / 18014398509481984) * 65535" 38 "5927004843690893"] by simp

lemma xycalc_37: "fmul 0 (7101600151610969 / 36028797018963968) = 0"
  by (simp add: fadd_def fsub_def fmul_def fdiv_def fl_zero)

lemma xycalc_38: "fadd (6785852781736023 / 9007199254740992) 0 = (6785852781736023 / 9007199254740992)"
  unfolding fadd_def fsub_def fmul_def fdiv_def
  using fl_eqI [of "(6785852781736023 / 9007199254740992) + 0" 53 "6785852781736023"] by simp

lemma xycalc_39: "fmul 0 (3256715020138191 / 144115188075855872) = 0"
  by (simp add: fadd_def fsub_def fmul_def fdiv_def fl_zero)

lemma xycalc_40: "fadd (2200913641495589 / 2251799813685248) 0 = (2200913641495589 / 2251799813685248)"
  unfolding fadd_def fsub_def fmul_def fdiv_def
  using fl_eqI [of "(2200913641495589 / 2251799813685248) + 0" 53 "8803654565982356"] by simp

lemma xycalc_41: "fmul 0 (4664661860844147 / 4503599627370496) = 0"
  by (simp add: fadd_def fsub_def fmul_def fdiv_def fl_zero)

lemma xycalc_42: "fadd (3824600918751101 / 72057594037927936) 0 = (3824600918751101 / 72057594037927936)"
  unfolding fadd_def fsub_def fmul_def fdiv_def
  using fl_eqI [of "(3824600918751101 / 72057594037927936) + 0" 57 "7649201837502202"] by simp

lemma xycalc_43: "fadd (6785852781736023 / 9007199254740992) (2200913641495589 / 2251799813685248) = (3897376836929595 / 2251799813685248)"
  unfolding fadd_def fsub_def fmul_def fdiv_def
  using fl_eqI [of "(6785852781736023 / 9007199254740992) + (2200913641495589 / 2251799813685248)" 52 "7794753673859190"] by simp

lemma xycalc_44: "fadd (3897376836929595 / 2251799813685248) (3824600918751101 / 72057594037927936) = (4016895615640567 / 2251799813685248)"
  unfolding fadd_def fsub_def fmul_def fdiv_def
  using fl_eqI [of "(3897376836929595 / 2251799813685248) + (3824600918751101 / 72057594037927936)" 52 "8033791231281134"] by simp

lemma xycalc_45: "fdiv (6785852781736023 / 9007199254740992) (4016895615640567 / 2251799813685248) = (7608055320188829 / 18014398509481984)"
  unfolding fadd_def fsub_def fmul_def fdiv_def
  using fl_eqI [of "(6785852781736023 / 9007199254740992) / (4016895615640567 / 2251799813685248)" 54 "7608055320188829"] by simp

lemma xycalc_46: "fdiv (2200913641495589 / 2251799813685248) (4016895615640567 / 2251799813685248) = (1233792809691113 / 2251799813685248)"
  unfolding fadd_def fsub_def fmul_def fdiv_def
  using fl_eqI [of "(2200913641495589 / 2251799813685248) / (4016895615640567 / 2251799813685248)" 53 "4935171238764452"] by simp

lemma xycalc_47: "fmul (7608055320188829 / 18014398509481984) 65535 = (3803969615238761 / 137438953472)"
  unfolding fadd_def fsub_def fmul_def fdiv_def
  using fl_eqI [of "(7608055320188829 / 18014398509481984) * 65535" 38 "7607939230477522"] by simp

lemma xycalc_48: "fmul (1233792809691113 / 2251799813685248) 65535 = (1233773983506883 / 34359738368)"
  unfolding fadd_def fsub_def fmul_def fdiv_def
  using fl_eqI [of "(1233792809691113 / 2251799813685248) * 65535" 37 "4935095934027532"] by simp

lemma xycalc_49: "fmul (5599084584990455 / 18446744073709551616) (2927006491418397 / 4503599627370496) = (7277981295969013 / 36893488147419103232)"
  unfolding fadd_def fsub_def fmul_def fdiv_def
  using fl_eqI [of "(5599084584990455 / 18446744073709551616) * (2927006491418397 / 4503599627370496)" 65 "7277981295969013"] by simp

lemma xycalc_50: "fadd (7277981295969013 / 36893488147419103232) (7454718391193835 / 72057594037927936) = (1867233299603131 / 18014398509481984)"
  unfolding fadd_def fsub_def fmul_def fdiv_def
  using fl_eqI [of "(7277981295969013 / 36893488147419103232) + (7454718391193835 / 72057594037927936)" 56 "7468933198412524"] by simp

lemma xycalc_51: "fadd (1867233299603131 / 18014398509481984) 0 = (1867233299603131 / 18014398509481984)"
  unfolding fadd_def fsub_def fmul_def fdiv_def
  using fl_eqI [of "(1867233299603131 / 18014398509481984) + 0" 56 "7468933198412524"] by simp

lemma xycalc_52: "fmul (5599084584990455 / 18446744073709551616) (4221259959531385 / 18014398509481984) = (2624033387094117 / 36893488147419103232)"
  unfolding fadd_def fsub_def fmul_def fdiv_def
  using fl_eqI [of "(5599084584990455 / 18446744073709551616) * (4221259959531385 / 18014398509481984)" 66 "5248066774188234"] by simp

lemma xycalc_53: "fadd (2624033387094117 / 36893488147419103232) (6693024586216663 / 9007199254740992) = (6693665219367809 / 9007199254740992)"
  unfolding fadd_def fsub_def fmul_def fdiv_def
  using fl_eqI [of "(2624033387094117 / 36893488147419103232) + (6693024586216663 / 9007199254740992)" 53 "6693665219367809"] by simp

lemma xycalc_54: "fadd (6693665219367809 / 9007199254740992) 0 = (6693665219367809 / 9007199254740992)"
  unfolding fadd_def fsub_def fmul_def fdiv_def
  using fl_eqI [of "(6693665219367809 / 9007199254740992) + 0" 53 "6693665219367809"] by simp

lemma xycalc_55: "fmul (5599084584990455 / 18446744073709551616) 0 = 0"
  by (simp add: fadd_def fsub_def fmul_def fdiv_def fl_zero)

lemma xycalc_56: "fadd (1867233299603131 / 18014398509481984) (6693665219367809 / 9007199254740992) = (3813640934584687 / 4503599627370496)"
  unfolding fadd_def fsub_def fmul_def fdiv_def
  using fl_eqI [of "(1867233299603131 / 18014398509481984) + (6693665219367809 / 9007199254740992)" 53 "7627281869169374"] by simp

lemma xycalc_57: "fadd (3813640934584687 / 4503599627370496) (3824600918751101 / 72057594037927936) = (4052678492006631 / 4503599627370496)"
  unfolding fadd_def fsub_def fmul_def fdiv_def
  using fl_eqI [of "(3813640934584687 / 4503599627370496) + (3824600918751101 / 72057594037927936)" 53 "8105356984013262"] by simp

lemma xycalc_58: "fdiv (1867233299603131 / 18014398509481984) (4052678492006631 / 4503599627370496) = (8299963798157303 / 72057594037927936)"
  unfolding fadd_def fsub_def fmul_def fdiv_def
  using fl_eqI [of "(1867233299603131 / 18014398509481984) / (4052678492006631 / 4503599627370496)" 56 "8299963798157303"] by simp

lemma xycalc_59: "fdiv (6693665219367809 / 9007199254740992) (4052678492006631 / 4503599627370496) = (3719217826820691 / 4503599627370496)"
  unfolding fadd_def fsub_def fmul_def fdiv_def
  using fl_eqI [of "(6693665219367809 / 9007199254740992) / (4052678492006631 / 4503599627370496)" 53 "7438435653641382"] by simp

lemma xycalc_60: "fmul (8299963798157303 / 72057594037927936) 65535 = (8299837150760481 / 1099511627776)"
  unfolding fadd_def fsub_def fmul_def fdiv_def
  using fl_eqI [of "(8299963798157303 / 72057594037927936) * 65535" 40 "8299837150760481"] by simp

lemma xycalc_61: "fmul (3719217826820691 / 4503599627370496) 65535 = (1859580538030197 / 34359738368)"
  unfolding fadd_def fsub_def fmul_def fdiv_def
  using fl_eqI [of "(3719217826820691 / 4503599627370496) * 65535" 37 "7438322152120788"] by simp

lemmas xycalc = xycalc_1 xycalc_2 xycalc_3 xycalc_4 xycalc_5 xycalc_6 xycalc_7 xycalc_8 xycalc_9 xycalc_10 xycalc_11 xycalc_12 xycalc_13 xycalc_14 xycalc_15 xycalc_16 xycalc_17 xycalc_18 xycalc_19 xycalc_20 xycalc_21 xycalc_22 xycalc_23 xycalc_24 xycalc_25 xycalc_26 xycalc_27 xycalc_28 xycalc_29 xycalc_30 xycalc_31 xycalc_32 xycalc_33 xycalc_34 xycalc_35 xycalc_36 xycalc_37 xycalc_38 xycalc_39 xycalc_40 xycalc_41 xycalc_42 xycalc_43 xycalc_44 xycalc_45 xycalc_46 xycalc_47 xycalc_48 xycalc_49 xycalc_50 xycalc_51 xycalc_52 xycalc_53 xycalc_54 xycalc_55 xycalc_56 xycalc_57 xycalc_58 xycalc_59 xycalc_60 xycalc_61

lemma linear_xy_white: "linear_rgb_to_xy_16bit 1 1 1 = (20494, 21562)"
proof -
  have X: "fadd (fadd (fmul 1 (fl (649926 / 1000000))) (fmul 1 (fl (103455 / 1000000)))) (fmul 1 (fl (197109 / 1000000))) = (8561252819638765 / 9007199254740992)"
    by (simp only: xycalc)
  have Y: "fadd (fadd (fmul 1 (fl (234327 / 1000000))) (fmul 1 (fl (743075 / 1000000)))) (fmul 1 (fl (22598 / 1000000))) = 1"
    by (simp only: xycalc)
  have Z: "fadd (fadd (fmul 1 0) (fmul 1 (fl (53077 / 1000000)))) (fmul 1 (fl (1035763 / 1000000))) = (4903699418266091 / 4503599627370496)"
    by (simp only: xycalc)
  have T: "fadd (fadd (8561252819638765 / 9007199254740992) 1) (4903699418266091 / 4503599627370496) = (427747670482999 / 140737488355328)"
    by (simp only: xycalc)
  have nz: "((427747670482999 / 140737488355328) :: real) \<noteq> 0"
    by simp
  have x: "(if ((427747670482999 / 140737488355328) :: real) \<noteq> 0 then fdiv (8561252819638765 / 9007199254740992) (427747670482999 / 140737488355328) else 0) = (5633644796477359 / 18014398509481984)"
    using nz by (simp only: if_True simp_thms xycalc)
  have y: "(if ((427747670482999 / 140737488355328) :: real) \<noteq> 0 then fdiv 1 (427747670482999 / 140737488355328) else 0) = (5927095283987585 / 18014398509481984)"
    using nz by (simp only: if_True simp_thms xycalc)
  have cx: "max 0 (min 1 (5633644796477359 / 18014398509481984)) = ((5633644796477359 / 18014398509481984) :: real)"
    by simp
  have cy: "max 0 (min 1 (5927095283987585 / 18014398509481984)) = ((5927095283987585 / 18014398509481984) :: real)"
    by simp
  have ix: "py_int (fmul (5633644796477359 / 18014398509481984) 65535) = 20494"
    by (simp add: xycalc py_int_def)
  have iy: "py_int (fmul (5927095283987585 / 18014398509481984) 65535) = 21562"
    by (simp add: xycalc py_int_def)
  show ?thesis
    unfolding linear_rgb_to_xy_16bit_def Let_def X Y Z T x y cx cy ix iy ..
qed

lemma linear_xy_raw: "linear_rgb_to_xy_16bit 1 1 0 = (27677, 35907)"
proof -
  have X: "fadd (fadd (fmul 1 (fl (649926 / 1000000))) (fmul 1 (fl (103455 / 1000000)))) (fmul 0 (fl (197109 / 1000000))) = (6785852781736023 / 9007199254740992)"
    by (simp only: xycalc)
  have Y: "fadd (fadd (fmul 1 (fl (234327 / 1000000))) (fmul 1 (fl (743075 / 1000000)))) (fmul 0 (fl (22598 / 1000000))) = (2200913641495589 / 2251799813685248)"
    by (simp only: xycalc)
  have Z: "fadd (fadd (fmul 1 0) (fmul 1 (fl (53077 / 1000000)))) (fmul 0 (fl (1035763 / 1000000))) = (3824600918751101 / 72057594037927936)"
    by (simp only: xycalc)
  have T: "fadd (fadd (6785852781736023 / 9007199254740992) (2200913641495589 / 2251799813685248)) (3824600918751101 / 72057594037927936) = (4016895615640567 / 2251799813685248)"
    by (simp only: xycalc)
  have nz: "((4016895615640567 / 2251799813685248) :: real) \<noteq> 0"
    by simp
  have x: "(if ((4016895615640567 / 2251799813685248) :: real) \<noteq> 0 then fdiv (6785852781736023 / 9007199254740992) (4016895615640567 / 2251799813685248) else 0) = (7608055320188829 / 18014398509481984)"
    using nz by (simp only: if_True simp_thms xycalc)
  have y: "(if ((4016895615640567 / 2251799813685248) :: real) \<noteq> 0 then fdiv (2200913641495589 / 2251799813685248) (4016895615640567 / 2251799813685248) else 0) = (1233792809691113 / 2251799813685248)"
    using nz by (simp only: if_True simp_thms xycalc)
  have cx: "max 0 (min 1 (7608055320188829 / 18014398509481984)) = ((7608055320188829 / 18014398509481984) :: real)"
    by simp
  have cy: "max 0 (min 1 (1233792809691113 / 2251799813685248)) = ((1233792809691113 / 2251799813685248) :: real)"
    by simp
  have ix: "py_int (fmul (7608055320188829 / 18014398509481984) 65535) = 27677"
    by (simp add: xycalc py_int_def)
  have iy: "py_int (fmul (1233792809691113 / 2251799813685248) 65535) = 35907"
    by (simp add: xycalc py_int_def)
  show ?thesis
    unfolding linear_rgb_to_xy_16bit_def Let_def X Y Z T x y cx cy ix iy ..
qed

lemma linear_xy_normalized: "linear_rgb_to_xy_16bit (5599084584990455 / 18446744073709551616) 1 0 = (7548, 54120)"
proof -
  have X: "fadd (fadd (fmul (5599084584990455 / 18446744073709551616) (fl (649926 / 1000000))) (fmul 1 (fl (103455 / 1000000)))) (fmul 0 (fl (197109 / 1000000))) = (1867233299603131 / 18014398509481984)"
    by (simp only: xycalc)
  have Y: "fadd (fadd (fmul (5599084584990455 / 18446744073709551616) (fl (234327 / 1000000))) (fmul 1 (fl (743075 / 1000000)))) (fmul 0 (fl (22598 / 1000000))) = (6693665219367809 / 9007199254740992)"
    by (simp only: xycalc)
  have Z: "fadd (fadd (fmul (5599084584990455 / 18446744073709551616) 0) (fmul 1 (fl (53077 / 1000000)))) (fmul 0 (fl (1035763 / 1000000))) = (3824600918751101 / 72057594037927936)"
    by (simp only: xycalc)
  have T: "fadd (fadd (1867233299603131 / 18014398509481984) (6693665219367809 / 9007199254740992)) (3824600918751101 / 72057594037927936) = (4052678492006631 / 4503599627370496)"
    by (simp only: xycalc)
  have nz: "((4052678492006631 / 4503599627370496) :: real) \<noteq> 0"
    by simp
  have x: "(if ((4052678492006631 / 4503599627370496) :: real) \<noteq> 0 then fdiv (1867233299603131 / 18014398509481984) (4052678492006631 / 4503599627370496) else 0) = (8299963798157303 / 72057594037927936)"
    using nz by (simp only: if_True simp_thms xycalc)
  have y: "(if ((4052678492006631 / 4503599627370496) :: real) \<noteq> 0 then fdiv (6693665219367809 / 9007199254740992) (4052678492006631 / 4503599627370496) else 0) = (3719217826820691 / 4503599627370496)"
    using nz by (simp only: if_True simp_thms xycalc)
  have cx: "max 0 (min 1 (8299963798157303 / 72057594037927936)) = ((8299963798157303 / 72057594037927936) :: real)"
    by simp
  have cy: "max 0 (min 1 (3719217826820691 / 4503599627370496)) = ((3719217826820691 / 4503599627370496) :: real)"
    by simp
  have ix: "py_int (fmul (8299963798157303 / 72057594037927936) 65535) = 7548"
    by (simp add: xycalc py_int_def)
  have iy: "py_int (fmul (3719217826820691 / 4503599627370496) 65535) = 54120"
    by (simp add: xycalc py_int_def)
  show ?thesis
    unfolding linear_rgb_to_xy_16bit_def Let_def X Y Z T x y cx cy ix iy ..
qed

section \<open>The handlers, branch by branch\<close>

lemmas protocol_defs =
  PROTOCOL_DMX_WHITE_def PROTOCOL_DMX_RGB_def PROTOCOL_DMX_RGBW_def PROTOCOL_DALI_WHITE_def
  PROTOCOL_DALI_RGB_def PROTOCOL_DALI_RGBW_def PROTOCOL_DALI_DT8_XY_def
  PROTOCOL_DALI_DT8_CCT_def

lemma update_state_fixed:
  assumes "update_state kw l = (l', e)"
  shows "protocol l' = protocol l" and "address l' = address l" and "line l' = line l"
    and "is_on l' = is_on l" and "attr_available l' = attr_available l"
    and "attr_min_color_temp_kelvin l' = attr_min_color_temp_kelvin l"
    and "attr_max_color_temp_kelvin l' = attr_max_color_temp_kelvin l"
  using assms
  by (auto simp add: update_state_def Let_def split: option.splits sum.splits prod.splits if_splits)

lemma off_commands_dali_rgbw:
  assumes "protocol l = PROTOCOL_DALI_RGBW"
  shows "off_commands l c =
     ([create_dali_message (c + 1) (line l) (address l) (Some DALI_ARC_LEVEL) (Some [0]) None None,
       create_dali_message (c + 2) (line l) (address l + 1) (Some DALI_ARC_LEVEL) (Some [0]) None None,
       create_dali_message (c + 3) (line l) (address l + 2) (Some DALI_ARC_LEVEL) (Some [0]) None None,
       create_dali_message (c + 4) (line l) (address l + 3) (Some DALI_ARC_LEVEL) (Some [0]) None None],
      c + 4)"
  using assms by (simp add: off_commands_def protocol_defs get_message_id_def Let_def)

lemma async_turn_off_sent:
  assumes "off_commands l c = (cmds, c')" and "cmds \<noteq> []"
  shows "res_sent (async_turn_off send l c) = Some cmds"
  using assms by (simp add: async_turn_off_def split: option.splits)

lemma async_turn_on_sent:
  assumes "update_state kw l = (l', None)" and "on_commands dmax l' c = (Inr cmds, c')"
    and "cmds \<noteq> []"
  shows "res_sent (async_turn_on dmax send kw l c) = Some cmds"
  using assms by (simp add: async_turn_on_def split: option.splits)

lemma on_commands_dali_white:
  assumes "protocol l = PROTOCOL_DALI_WHITE"
  shows "on_commands dmax l c =
     (Inr [create_dali_message (c + 1) (line l) (address l) (Some DALI_ARC_LEVEL)
             (Some [brightness_to_arc_level dmax (brightness l)]) None None],
      c + 1)"
  using assms by (simp add: on_commands_def protocol_defs get_message_id_def Let_def)

lemma on_commands_fallback:
  assumes "protocol l \<notin> set PROTOCOLS"
  shows "on_commands dmax l c =
     (Inr [create_dali_message (c + 1) (line l) (address l) (Some DALI_ARC_LEVEL)
             (Some [brightness_to_arc_level dmax (brightness l)]) None None],
      c + 1)"
  using assms by (simp add: on_commands_def PROTOCOLS_def get_message_id_def Let_def)

lemma off_commands_fallback:
  assumes "protocol l \<notin> set PROTOCOLS"
  shows "off_commands l c =
     ([create_dali_message (c + 1) (line l) (address l) (Some DALI_ARC_LEVEL) (Some [0]) None None],
      c + 1)"
  using assms by (simp add: off_commands_def PROTOCOLS_def get_message_id_def Let_def)

lemma on_commands_dali_dt8_xy:
  assumes "protocol l = PROTOCOL_DALI_DT8_XY" and "rgbw_color l = (r, g, b, w)"
    and "rgb_to_xy_16bit (of_int r) (of_int g) (of_int b) = (x16, y16)"
  shows "on_commands dmax l c =
     (Inr [create_dali_message (c + 1) (line l) (address l) None None
             (Some SET_TEMP_X_COORD) (Some [x16 AND 255, drop_bit 8 x16 AND 255]),
           create_dali_message (c + 2) (line l) (address l) None None
             (Some SET_TEMP_Y_COORD) (Some [y16 AND 255, drop_bit 8 y16 AND 255]),
           create_dali_message (c + 3) (line l) (address l) (Some DALI_ARC_LEVEL)
             (Some [brightness_to_arc_level dmax (brightness l)]) None None,
           create_dali_message (c + 4) (line l) (address l) None None (Some ACTIVATE) None],
      c + 4)"
  using assms by (simp add: on_commands_def protocol_defs get_message_id_def Let_def)

lemma off_commands_dali_dt8_xy:
  assumes "protocol l = PROTOCOL_DALI_DT8_XY"
  shows "off_commands l c =
     ([create_dali_message (c + 1) (line l) (address l) (Some DALI_ARC_LEVEL) (Some [0]) None None],
      c + 1)"
  using assms by (simp add: off_commands_def protocol_defs get_message_id_def Let_def)

lemma brightness_to_arc_level_0: "brightness_to_arc_level dmax 0 = 0"
  by (simp add: brightness_to_arc_level_def fdiv_0 fmul_0_left py_int_def)

lemma brightness_to_arc_level_255:
  "\<bar>dmax\<bar> < 2 ^ 53 \<Longrightarrow> brightness_to_arc_level dmax 255 = dmax"
  by (simp add: brightness_to_arc_level_def fdiv_255_255 fmul_1_of_int py_int_of_int)

lemma mod_255_of_254:
  fixes b :: int
  assumes "0 < b" and "b < 255"
  shows "b * 254 mod 255 \<noteq> 0"
proof -
  have "b * 254 = 255 - b + 255 * (b - 1)" by (simp add: algebra_simps)
  then have "b * 254 mod 255 = (255 - b + 255 * (b - 1)) mod 255" by (rule arg_cong)
  also have "\<dots> = (255 - b) mod 255" by (simp only: mod_mult_self2)
  also have "\<dots> = 255 - b" using assms by (intro mod_pos_pos_trivial) simp_all
  finally show ?thesis using assms by simp
qed

lemma brightness_to_arc_level_254:
  assumes "0 \<le> b" and "b \<le> 255"
  shows "brightness_to_arc_level 254 b = b * 254 div 255"
proof -
  consider "b = 0" | "b = 255" | "0 < b" "b < 255" using assms by linarith
  then show ?thesis
  proof cases
    case 1
    then show ?thesis by (simp add: brightness_to_arc_level_0)
  next
    case 2
    then show ?thesis using brightness_to_arc_level_255 [of 254] by simp
  next
    case 3
    then have "b * 254 mod 255 \<noteq> 0" by (rule mod_255_of_254)
    then have "py_int (fl (fl (of_int b / 255) * of_int 254)) = b * 254 div 255"
      using assms by (intro trunc_scaled_bounds(3)) simp_all
    then show ?thesis by (simp add: brightness_to_arc_level_def fmul_def fdiv_def)
  qed
qed

lemma update_state_no_kwargs:
  "update_state no_kwargs l =
     ((if \<not> is_on l \<and> brightness l = 0 then l\<lparr>brightness := 255\<rparr> else l), None)"
  by (simp add: update_state_def no_kwargs_def)

lemma gamma_threshold: "fl (45045 / 1000000) < 1" "0 < fl (45045 / 1000000)"
  "\<not> fl (45045 / 1000000) < (282578800148737 / 72057594037927936)"
  unfolding xycalc by simp_all

lemma gamma_1: "gamma 1 = 1"
proof -
  have a: "fdiv (fadd 1 (fl (55 / 1000))) (fadd 1 (fl (55 / 1000))) = 1"
    by (simp only: xycalc)
  show ?thesis
    unfolding gamma_def a using gamma_threshold(1) by (simp add: py_pow_def fl_one)
qed

lemma gamma_0: "gamma 0 = 0"
  unfolding gamma_def using gamma_threshold(2) by (simp add: fdiv_0)

lemma gamma_1_255:
  "gamma (282578800148737 / 72057594037927936) = 5599084584990455 / 18446744073709551616"
  unfolding gamma_def using gamma_threshold(3) by (simp only: if_False xycalc)

lemma normalize_channel_0: "normalize_channel 0 = 0"
  by (simp add: normalize_channel_def)

lemma normalize_channel_1: "normalize_channel 1 = 1"
  by (simp add: normalize_channel_def)

lemma normalize_channel_255: "normalize_channel 255 = 1"
  by (simp add: normalize_channel_def fdiv_255_255)

lemma normalize_channel_1_255:
  "normalize_channel (282578800148737 / 72057594037927936) = 282578800148737 / 72057594037927936"
  by (simp add: normalize_channel_def)

lemma rgb_to_xy_16bit_white: "rgb_to_xy_16bit 255 255 255 = (20494, 21562)"
  unfolding rgb_to_xy_16bit_def Let_def normalize_channel_255 gamma_1 by (rule linear_xy_white)

lemma rgb_to_xy_16bit_raw: "rgb_to_xy_16bit 1 255 0 = (27677, 35907)"
  unfolding rgb_to_xy_16bit_def Let_def normalize_channel_255 normalize_channel_1
    normalize_channel_0 gamma_1 gamma_0
  by (rule linear_xy_raw)

lemma rgb_to_xy_16bit_normalized:
  "rgb_to_xy_16bit (fdiv 1 255) (fdiv 255 255) (fdiv 0 255) = (7548, 54120)"
  unfolding fdiv_0 fdiv_255_255 xycalc rgb_to_xy_16bit_def Let_def normalize_channel_1_255
    normalize_channel_1 normalize_channel_0 gamma_1 gamma_0 gamma_1_255
  by (rule linear_xy_normalized)

lemma normalize_channel_idem:
  assumes "c = 0 \<or> (1 < c \<and> c \<le> 255)"
  shows "normalize_channel (fdiv c 255) = normalize_channel c"
proof (cases "c = 0")
  case True
  then show ?thesis by (simp add: fdiv_0)
next
  case False
  with assms have c: "1 < c" "c \<le> 255" by simp_all
  have "fl (c / 255) \<le> fl 1" using c by (intro fl_mono) simp
  then have "\<not> 1 < fdiv c 255" by (simp add: fdiv_def fl_one)
  then show ?thesis using c by (simp add: normalize_channel_def)
qed

lemma update_state_brightness_kw:
  "update_state (no_kwargs\<lparr>kw_brightness := Some b\<rparr>) l = (l\<lparr>brightness := b\<rparr>, None)"
  by (simp add: update_state_def no_kwargs_def)

lemma py_round_nearest:
  "\<bar>s - of_int m\<bar> < 1 / 2 \<Longrightarrow> py_round s = m"
  unfolding py_round_def by (rule round_half_even_nearest) simp

lemma on_commands_unknown_as_dali_white:
  assumes "protocol l \<notin> set PROTOCOLS"
  shows "on_commands dmax l c = on_commands dmax (l\<lparr>protocol := PROTOCOL_DALI_WHITE\<rparr>) c"
  by (simp add: on_commands_fallback [OF assms] on_commands_dali_white)

lemma off_commands_dali_white:
  assumes "protocol l = PROTOCOL_DALI_WHITE"
  shows "off_commands l c =
     ([create_dali_message (c + 1) (line l) (address l) (Some DALI_ARC_LEVEL) (Some [0]) None None],
      c + 1)"
  using assms by (simp add: off_commands_def protocol_defs get_message_id_def Let_def)

lemma off_commands_unknown_as_dali_white:
  assumes "protocol l \<notin> set PROTOCOLS"
  shows "off_commands l c = off_commands (l\<lparr>protocol := PROTOCOL_DALI_WHITE\<rparr>) c"
  by (simp add: off_commands_fallback [OF assms] off_commands_dali_white)

lemma off_commands_nonempty: "fst (off_commands l c) \<noteq> []"
  by (simp add: off_commands_def get_message_id_def Let_def)

lemma async_turn_off_ok:
  assumes "send (fst (off_commands l c)) = None"
  shows "res_light (async_turn_off send l c) = l\<lparr>is_on := False, brightness := 0\<rparr>"
proof -
  obtain cmds c' where o: "off_commands l c = (cmds, c')" by (cases "off_commands l c")
  then show ?thesis
    using assms off_commands_nonempty [of l c] by (simp add: async_turn_off_def)
qed

lemma update_state_resets_brightness:
  assumes "kw_brightness kw = None" and "\<not> is_on l" and "brightness l = 0"
  shows "update_state kw l = update_state kw (l\<lparr>brightness := 255\<rparr>)"
  using assms by (simp add: update_state_def)

lemma update_state_brightness_255:
  assumes "kw_brightness kw = None" and "\<not> is_on l" and "brightness l = 0"
  shows "brightness (fst (update_state kw l)) = 255"
  using assms
  by (simp add: update_state_def Let_def split: option.splits sum.splits prod.splits)

lemma on_commands_dmx_rgb:
  assumes "protocol l = PROTOCOL_DMX_RGB" and "rgb_color l = (r, g, b)"
  shows "on_commands dmax l c =
     (Inr [create_dmx_message (c + 1) 0 2 (address l) 1
             [scaled_channel r (brightness l), scaled_channel g (brightness l),
              scaled_channel b (brightness l)] 25],
      c + 1)"
  using assms
  by (simp add: on_commands_def protocol_defs get_message_id_def Let_def scaled_channel_def)

lemma on_commands_dali_rgb:
  assumes "protocol l = PROTOCOL_DALI_RGB" and "rgb_color l = (r, g, b)"
  shows "on_commands dmax l c =
     (Inr [create_dali_message (c + 1) (line l) (address l) (Some DALI_ARC_LEVEL)
             (Some [dali_channel dmax (scaled_channel r (brightness l))]) None None,
           create_dali_message (c + 2) (line l) (address l + 1) (Some DALI_ARC_LEVEL)
             (Some [dali_channel dmax (scaled_channel g (brightness l))]) None None,
           create_dali_message (c + 3) (line l) (address l + 2) (Some DALI_ARC_LEVEL)
             (Some [dali_channel dmax (scaled_channel b (brightness l))]) None None],
      c + 3)"
  using assms
  by (simp add: on_commands_def protocol_defs get_message_id_def Let_def scaled_channel_def
      dali_channel_def)

lemma scaled_channel_full: "\<bar>x\<bar> < 2 ^ 53 \<Longrightarrow> scaled_channel x 255 = x"
  by (simp add: scaled_channel_def fdiv_255_255 fmul_of_int_1 py_int_of_int)

lemma scaled_channel_zero: "scaled_channel x 0 = 0"
  by (simp add: scaled_channel_def fdiv_0 fmul_0_right py_int_def)

lemma scaled_channel_black: "scaled_channel 0 b = 0"
  by (simp add: scaled_channel_def fmul_0_left py_int_def)

lemma scaled_channel_bounds:
  assumes "0 \<le> x" "x \<le> 255" "0 \<le> b" "b \<le> 255"
  shows "x * b div 255 - 1 \<le> scaled_channel x b" and "scaled_channel x b \<le> x * b div 255"
    and "x * b mod 255 \<noteq> 0 \<Longrightarrow> scaled_channel x b = x * b div 255"
proof -
  have eq: "scaled_channel x b = py_int (fl (fl (of_int b / 255) * of_int x))"
    by (simp add: scaled_channel_def fmul_def fdiv_def mult.commute)
  have c: "x * b = b * x" by simp
  note t = trunc_scaled_bounds [OF assms(3,4,1,2)]
  show "x * b div 255 - 1 \<le> scaled_channel x b" unfolding eq c by (rule t(1))
  show "scaled_channel x b \<le> x * b div 255" unfolding eq c by (rule t(2))
  show "scaled_channel x b = x * b div 255" if "x * b mod 255 \<noteq> 0"
    using that unfolding eq c by (rule t(3))
qed

lemma scaled_channel_range:
  assumes "0 \<le> x" "x \<le> 255" "0 \<le> b" "b \<le> 255"
  shows "0 \<le> scaled_channel x b" and "scaled_channel x b \<le> 255"
proof -
  have "0 \<le> fmul (of_int x) (fdiv (of_int b) 255)"
    unfolding fmul_def fdiv_def using assms by (intro fl_nonneg mult_nonneg_nonneg) simp_all
  then show "0 \<le> scaled_channel x b" by (simp add: scaled_channel_def py_int_def)
  have "x * b \<le> 255 * 255" using assms by (intro mult_mono) simp_all
  then have "x * b div 255 \<le> 255" by simp
  with scaled_channel_bounds(2) [OF assms] show "scaled_channel x b \<le> 255" by linarith
qed

lemma scaled_channel_51_155: "scaled_channel 51 155 = 30"
  by (simp add: scaled_channel_def calc py_int_def)

lemma mod_255_of_254': 
  fixes e :: int
  assumes "0 < e" and "e < 255"
  shows "254 * e mod 255 \<noteq> 0"
  using mod_255_of_254 [OF assms] by (simp add: mult.commute)

lemma dali_channel_254:
  assumes "0 \<le> e" and "e \<le> 255"
  shows "dali_channel 254 e = e * 254 div 255"
proof -
  consider "e = 0" | "e = 255" | "0 < e" "e < 255" using assms by linarith
  then show ?thesis
  proof cases
    case 1
    then show ?thesis by (simp add: dali_channel_def fmul_0_left py_int_def)
  next
    case 2
    then show ?thesis by (simp add: dali_channel_def calc py_int_def)
  next
    case 3
    then have nz: "254 * e mod 255 \<noteq> 0" by (rule mod_255_of_254')
    have "py_int (fl (fl (of_int 254 / 255) * of_int e)) = 254 * e div 255"
      using assms nz by (intro trunc_scaled_bounds(3)) simp_all
    then have v: "py_int (fmul (of_int e) (fdiv 254 255)) = e * 254 div 255"
      by (simp add: fmul_def fdiv_def mult.commute)
    have "e * 254 \<le> 255 * 254" using assms by simp
    then have "e * 254 div 255 \<le> 254" by simp
    then show ?thesis by (simp add: dali_channel_def v)
  qed
qed

lemma update_state_brightness_rgb_kw:
  "update_state (no_kwargs\<lparr>kw_brightness := Some br, kw_rgb_color := Some rgb\<rparr>) l =
     (l\<lparr>brightness := br, rgb_color := rgb\<rparr>, None)"
  by (simp add: update_state_def no_kwargs_def)

lemma scaled_channel_exact:
  assumes "0 \<le> x" "x \<le> 255" "0 \<le> b" "b \<le> 255" "x * b mod 255 \<noteq> 0"
  shows "scaled_channel x b = x * b div 255"
  using scaled_channel_bounds(3) [OF assms(1-4)] assms(5) by simp















section \<open>Claims\<close>




text \<open>
  C2, as the code has it. The claim's \<^verbatim>\<open>round\<close> does not hold: at brightness 1 and a
  maximum arc level of 254 the handler sends 0, where \<open>round (1 / 255 * 254) = 1\<close>.
\<close>

theorem dali_white_rounds_counterexample:
  "res_sent (async_turn_on 254 send_ok (no_kwargs\<lparr>kw_brightness := Some 1\<rparr>)
       (init_light 5 PROTOCOL_DALI_WHITE 1) 0) =
     Some [create_dali_message 1 1 5 (Some DALI_ARC_LEVEL) (Some [0]) None None]
   \<and> spec_arc_level 254 1 = 1"
proof -
  let ?l = "(init_light 5 PROTOCOL_DALI_WHITE 1)\<lparr>brightness := 1\<rparr>"
  have p: "protocol ?l = PROTOCOL_DALI_WHITE" by (simp add: init_light_def)
  have v: "brightness_to_arc_level 254 1 = 0"
    using brightness_to_arc_level_254 [of 1] by simp
  have "res_sent (async_turn_on 254 send_ok (no_kwargs\<lparr>kw_brightness := Some 1\<rparr>)
       (init_light 5 PROTOCOL_DALI_WHITE 1) 0) =
     Some [create_dali_message (0 + 1) (line ?l) (address ?l) (Some DALI_ARC_LEVEL)
       (Some [brightness_to_arc_level 254 (brightness ?l)]) None None]"
    by (rule async_turn_on_sent [OF update_state_brightness_kw on_commands_dali_white [OF p]]) simp
  moreover have "spec_arc_level 254 1 = 1"
    unfolding spec_arc_level_def by (rule py_round_nearest) simp
  ultimately show ?thesis by (simp add: v init_light_def)
qed

text \<open>
  C2, amended. For every brightness \<open>b\<close> in \<open>[0, 255]\<close>, a light with protocol
  \<^verbatim>\<open>DALI_WHITE\<close> hands the transport exactly one \<^verbatim>\<open>ARC_LEVEL\<close> message at its address,
  whose value is \<^verbatim>\<open>int(b / 255.0 * DALI_ARC_LEVEL_MAX)\<close>, the product truncated, not
  rounded. The value is 0 at \<open>b = 0\<close> and \<^verbatim>\<open>DALI_ARC_LEVEL_MAX\<close> at \<open>b = 255\<close>; with
  the DALI maximum of 254 it is \<open>\<lfloor>b * 254 / 255\<rfloor>\<close> for every such \<open>b\<close>.
\<close>

theorem dali_white_arc_level_truncates:
  assumes "protocol l = PROTOCOL_DALI_WHITE" and "update_state kw l = (l', None)"
    and "brightness l' = b" and "0 \<le> b" and "b \<le> 255" and "\<bar>dmax\<bar> < 2 ^ 53"
  shows "res_sent (async_turn_on dmax send kw l c) =
       Some [create_dali_message (c + 1) (line l) (address l) (Some DALI_ARC_LEVEL)
               (Some [py_int (fmul (fdiv (of_int b) 255) (of_int dmax))]) None None]
     \<and> brightness_to_arc_level dmax b = py_int (fmul (fdiv (of_int b) 255) (of_int dmax))
     \<and> brightness_to_arc_level dmax 0 = 0
     \<and> brightness_to_arc_level dmax 255 = dmax
     \<and> brightness_to_arc_level 254 b = b * 254 div 255"
proof -
  note fixed = update_state_fixed [OF assms(2)]
  have p: "protocol l' = PROTOCOL_DALI_WHITE" using assms(1) fixed(1) by simp
  have "res_sent (async_turn_on dmax send kw l c) =
       Some [create_dali_message (c + 1) (line l') (address l') (Some DALI_ARC_LEVEL)
               (Some [brightness_to_arc_level dmax (brightness l')]) None None]"
    by (rule async_turn_on_sent [OF assms(2) on_commands_dali_white [OF p]]) simp
  then show ?thesis
    using fixed(2,3) assms(3) brightness_to_arc_level_0 [of dmax]
      brightness_to_arc_level_255 [OF assms(6)] brightness_to_arc_level_254 [OF assms(4,5)]
    by (simp add: brightness_to_arc_level_def)
qed

theorem dali_white_arc_level_truncates_witness:
  "protocol (init_light 5 PROTOCOL_DALI_WHITE 1) = PROTOCOL_DALI_WHITE
   \<and> update_state (no_kwargs\<lparr>kw_brightness := Some 128\<rparr>) (init_light 5 PROTOCOL_DALI_WHITE 1)
       = ((init_light 5 PROTOCOL_DALI_WHITE 1)\<lparr>brightness := 128\<rparr>, None)
   \<and> res_sent (async_turn_on 254 send_ok (no_kwargs\<lparr>kw_brightness := Some 128\<rparr>)
         (init_light 5 PROTOCOL_DALI_WHITE 1) 0) =
       Some [create_dali_message 1 1 5 (Some DALI_ARC_LEVEL) (Some [127]) None None]
   \<and> brightness_to_arc_level 254 0 = 0
   \<and> brightness_to_arc_level 254 255 = 254"
  using dali_white_arc_level_truncates
    [of "init_light 5 PROTOCOL_DALI_WHITE 1" "no_kwargs\<lparr>kw_brightness := Some 128\<rparr>"
        "(init_light 5 PROTOCOL_DALI_WHITE 1)\<lparr>brightness := 128\<rparr>" 128 254 send_ok 0]
  by (simp add: update_state_brightness_kw init_light_def)

text \<open>
  C3, as the code has it. The general formula of the claim does not hold: for the colour
  \<open>(100, 0, 0)\<close> at brightness 254 and a maximum arc level of 254 the handler sends 98
  on the red channel, where \<open>round (100 * (254 / 255) * (254 / 255)) = 99\<close>.
\<close>

theorem dali_rgb_rounds_counterexample:
  "res_sent (async_turn_on 254 send_ok
       (no_kwargs\<lparr>kw_brightness := Some 254, kw_rgb_color := Some (100, 0, 0)\<rparr>)
       (init_light 10 PROTOCOL_DALI_RGB 1) 0) =
     Some [create_dali_message 1 1 10 (Some DALI_ARC_LEVEL) (Some [98]) None None,
           create_dali_message 2 1 11 (Some DALI_ARC_LEVEL) (Some [0]) None None,
           create_dali_message 3 1 12 (Some DALI_ARC_LEVEL) (Some [0]) None None]
   \<and> spec_dali_channel 254 100 254 = 99"
proof -
  let ?kw = "no_kwargs\<lparr>kw_brightness := Some 254, kw_rgb_color := Some (100, 0, 0)\<rparr>"
  let ?a = "init_light 10 PROTOCOL_DALI_RGB 1"
  let ?b = "?a\<lparr>brightness := 254, rgb_color := (100, 0, 0)\<rparr>"
  have p: "protocol ?b = PROTOCOL_DALI_RGB" and q: "rgb_color ?b = (100, 0, 0)"
    by (simp_all add: init_light_def)
  have f: "address ?b = 10" "line ?b = 1" "brightness ?b = 254" by (simp_all add: init_light_def)
  have v: "scaled_channel 100 254 = 99" by (simp add: scaled_channel_exact)
  have d: "dali_channel 254 99 = 98" "dali_channel 254 0 = 0"
    by (simp_all add: dali_channel_254)
  have "res_sent (async_turn_on 254 send_ok ?kw ?a 0) =
      Some [create_dali_message 1 1 10 (Some DALI_ARC_LEVEL) (Some [98]) None None,
           create_dali_message 2 1 11 (Some DALI_ARC_LEVEL) (Some [0]) None None,
           create_dali_message 3 1 12 (Some DALI_ARC_LEVEL) (Some [0]) None None]"
    using async_turn_on_sent [OF update_state_brightness_rgb_kw
        on_commands_dali_rgb [OF p q, of 254 0], where send = send_ok]
    by (simp add: f v d scaled_channel_black)
  moreover have "spec_dali_channel 254 100 254 = 99"
    unfolding spec_dali_channel_def by (rule py_round_nearest) simp
  ultimately show ?thesis by simp
qed

text \<open>
  C3, amended. A light with protocol \<^verbatim>\<open>DALI_RGB\<close> hands the transport exactly three
  \<^verbatim>\<open>ARC_LEVEL\<close> messages, at \<open>address\<close>, \<open>address + 1\<close> and \<open>address + 2\<close>. Each
  value is truncated twice: with \<open>e = int(channel * (brightness / 255.0))\<close> it is
  \<open>min(int(e * (DALI_ARC_LEVEL_MAX / 255.0)), DALI_ARC_LEVEL_MAX)\<close>, which at the DALI
  maximum of 254 is \<open>\<lfloor>e * 254 / 255\<rfloor>\<close>. The worked example of the claim holds: address
  10, line 1, colour \<open>(255, 0, 0)\<close> and brightness 128 give the values
  \<open>[127, 0, 0]\<close> at the addresses 10, 11 and 12, and \<open>round (128 / 255 * 254) = 127\<close>.
\<close>

theorem dali_rgb_channels_truncate_twice:
  assumes "protocol l = PROTOCOL_DALI_RGB" and "update_state kw l = (l', None)"
    and "rgb_color l' = (r, g, b)" and "brightness l' = br"
    and "0 \<le> x" and "x \<le> 255" and "0 \<le> br" and "br \<le> 255"
  shows "res_sent (async_turn_on dmax send kw l c) =
       Some [create_dali_message (c + 1) (line l) (address l) (Some DALI_ARC_LEVEL)
               (Some [dali_channel dmax (scaled_channel r br)]) None None,
             create_dali_message (c + 2) (line l) (address l + 1) (Some DALI_ARC_LEVEL)
               (Some [dali_channel dmax (scaled_channel g br)]) None None,
             create_dali_message (c + 3) (line l) (address l + 2) (Some DALI_ARC_LEVEL)
               (Some [dali_channel dmax (scaled_channel b br)]) None None]
     \<and> dali_channel dmax (scaled_channel x br) =
         min (py_int (fmul (of_int (py_int (fmul (of_int x) (fdiv (of_int br) 255))))
                       (fdiv (of_int dmax) 255))) dmax
     \<and> dali_channel 254 (scaled_channel x br) = scaled_channel x br * 254 div 255
     \<and> x * br div 255 - 1 \<le> scaled_channel x br
     \<and> scaled_channel x br \<le> x * br div 255
     \<and> (x * br mod 255 \<noteq> 0 \<longrightarrow> scaled_channel x br = x * br div 255)"
proof -
  note fixed = update_state_fixed [OF assms(2)]
  have p: "protocol l' = PROTOCOL_DALI_RGB" using assms(1) fixed(1) by simp
  have "res_sent (async_turn_on dmax send kw l c) =
       Some [create_dali_message (c + 1) (line l') (address l') (Some DALI_ARC_LEVEL)
               (Some [dali_channel dmax (scaled_channel r (brightness l'))]) None None,
             create_dali_message (c + 2) (line l') (address l' + 1) (Some DALI_ARC_LEVEL)
               (Some [dali_channel dmax (scaled_channel g (brightness l'))]) None None,
             create_dali_message (c + 3) (line l') (address l' + 2) (Some DALI_ARC_LEVEL)
               (Some [dali_channel dmax (scaled_channel b (brightness l'))]) None None]"
    by (rule async_turn_on_sent [OF assms(2) on_commands_dali_rgb [OF p assms(3)]]) simp
  moreover have "dali_channel 254 (scaled_channel x br) = scaled_channel x br * 254 div 255"
    using scaled_channel_range [OF assms(5-8)] by (rule dali_channel_254)
  moreover note scaled_channel_bounds [OF assms(5-8)]
  ultimately show ?thesis
    using fixed(2,3) assms(4) by (simp add: scaled_channel_def dali_channel_def)
qed

theorem dali_rgb_channels_truncate_twice_witness:
  "protocol (init_light 10 PROTOCOL_DALI_RGB 1) = PROTOCOL_DALI_RGB
   \<and> update_state (no_kwargs\<lparr>kw_brightness := Some 128, kw_rgb_color := Some (255, 0, 0)\<rparr>)
         (init_light 10 PROTOCOL_DALI_RGB 1) =
       ((init_light 10 PROTOCOL_DALI_RGB 1)\<lparr>brightness := 128, rgb_color := (255, 0, 0)\<rparr>, None)
   \<and> res_sent (async_turn_on 254 send_ok
         (no_kwargs\<lparr>kw_brightness := Some 128, kw_rgb_color := Some (255, 0, 0)\<rparr>)
         (init_light 10 PROTOCOL_DALI_RGB 1) 0) =
       Some [create_dali_message 1 1 10 (Some DALI_ARC_LEVEL) (Some [127]) None None,
             create_dali_message 2 1 11 (Some DALI_ARC_LEVEL) (Some [0]) None None,
             create_dali_message 3 1 12 (Some DALI_ARC_LEVEL) (Some [0]) None None]
   \<and> spec_arc_level 254 128 = 127
   \<and> spec_dali_channel 254 255 128 = 127"
proof -
  let ?kw = "no_kwargs\<lparr>kw_brightness := Some 128, kw_rgb_color := Some (255, 0, 0)\<rparr>"
  let ?a = "init_light 10 PROTOCOL_DALI_RGB 1"
  let ?b = "?a\<lparr>brightness := 128, rgb_color := (255, 0, 0)\<rparr>"
  have h: "protocol ?a = PROTOCOL_DALI_RGB" "update_state ?kw ?a = (?b, None)"
    "rgb_color ?b = (255, 0, 0)" "brightness ?b = 128"
    by (simp_all add: update_state_brightness_rgb_kw) (simp add: init_light_def)
  have f: "address ?a = 10" "line ?a = 1" by (simp_all add: init_light_def)
  have v: "scaled_channel 255 128 = 128"
    by (simp add: scaled_channel_def calc py_int_def)
  have d: "dali_channel 254 128 = 127" "dali_channel 254 0 = 0"
    by (simp_all add: dali_channel_254)
  have s: "spec_arc_level 254 128 = 127" "spec_dali_channel 254 255 128 = 127"
    unfolding spec_arc_level_def spec_dali_channel_def
    by (rule py_round_nearest, simp)+
  note t = dali_rgb_channels_truncate_twice
    [OF h, where x = 255 and dmax = 254 and send = send_ok and c = 0]
  show ?thesis
    using h(1,2) t s by (simp add: f v d scaled_channel_black)
qed

text \<open>
  C4, as the code has it. The test \<^verbatim>\<open>if r > 1\<close> takes a channel of exactly 1 for an
  already normalized full channel, so the triple \<open>(1, 255, 0)\<close> and its normalized form
  \<open>(1 / 255, 255 / 255, 0 / 255)\<close> give different coordinates.
\<close>

theorem rgb_to_xy_renormalization_counterexample:
  "rgb_to_xy_16bit (of_int 1) (of_int 255) (of_int 0) = (27677, 35907)
   \<and> rgb_to_xy_16bit (fdiv (of_int 1) 255) (fdiv (of_int 255) 255) (fdiv (of_int 0) 255) =
       (7548, 54120)"
  using rgb_to_xy_16bit_raw rgb_to_xy_16bit_normalized by simp

text \<open>
  C4, amended. For every RGB triple of integers in \<open>[0, 255]\<close> none of which is 1,
  feeding the normalized values \<open>(r / 255, g / 255, b / 255)\<close> to \<^verbatim>\<open>rgb_to_xy_16bit\<close>
  yields the same pair as feeding \<open>(r, g, b)\<close>.
\<close>

theorem rgb_to_xy_renormalization:
  fixes r g b :: int
  assumes "r = 0 \<or> (2 \<le> r \<and> r \<le> 255)" and "g = 0 \<or> (2 \<le> g \<and> g \<le> 255)"
    and "b = 0 \<or> (2 \<le> b \<and> b \<le> 255)"
  shows "rgb_to_xy_16bit (fdiv (of_int r) 255) (fdiv (of_int g) 255) (fdiv (of_int b) 255) =
     rgb_to_xy_16bit (of_int r) (of_int g) (of_int b)"
proof -
  have n: "normalize_channel (fdiv (of_int x) 255) = normalize_channel (of_int x)"
    if "x = 0 \<or> (2 \<le> x \<and> x \<le> 255)" for x :: int
    using that by (intro normalize_channel_idem) auto
  show ?thesis
    unfolding rgb_to_xy_16bit_def n [OF assms(1)] n [OF assms(2)] n [OF assms(3)] ..
qed

theorem rgb_to_xy_renormalization_witness:
  "((255 :: int) = 0 \<or> (2 \<le> (255 :: int) \<and> (255 :: int) \<le> 255))
   \<and> ((128 :: int) = 0 \<or> (2 \<le> (128 :: int) \<and> (128 :: int) \<le> 255))
   \<and> ((0 :: int) = 0 \<or> (2 \<le> (0 :: int) \<and> (0 :: int) \<le> 255))
   \<and> rgb_to_xy_16bit (fdiv (of_int 255) 255) (fdiv (of_int 128) 255) (fdiv (of_int 0) 255) =
       rgb_to_xy_16bit (of_int 255) (of_int 128) (of_int 0)"
  using rgb_to_xy_renormalization [of 255 128 0] by simp

text \<open>
  C5. What \<^verbatim>\<open>async_turn_on\<close> leaves behind, by what happened to the send. If the
  transport was called and raised (a connection, communication or timeout error, or any
  other exception), the light is marked unavailable, the handler returns without raising,
  its \<open>is_on\<close> flag is what it was, and the state fields are the ones the keyword
  arguments had already updated. If the transport was called and succeeded, the flag is
  set. If the transport was not called, the flag is unchanged. So the flag is set only
  after a successful send.
\<close>

theorem turn_on_send_outcome:
  "case res_sent (async_turn_on dmax send kw l c) of
     None \<Rightarrow> is_on (res_light (async_turn_on dmax send kw l c)) = is_on l
   | Some cmds \<Rightarrow>
       (case send cmds of
          None \<Rightarrow>
            res_light (async_turn_on dmax send kw l c) = (fst (update_state kw l))\<lparr>is_on := True\<rparr>
        | Some e \<Rightarrow>
            res_light (async_turn_on dmax send kw l c) =
              (fst (update_state kw l))\<lparr>attr_available := False\<rparr>
            \<and> is_on (res_light (async_turn_on dmax send kw l c)) = is_on l
            \<and> \<not> attr_available (res_light (async_turn_on dmax send kw l c))
            \<and> res_raised (async_turn_on dmax send kw l c) = None)"
proof -
  obtain l' e where u: "update_state kw l = (l', e)" by (cases "update_state kw l")
  note fixed = update_state_fixed [OF u]
  show ?thesis
    using fixed(4)
    by (auto simp add: async_turn_on_def u split: option.splits sum.splits prod.splits)
qed

theorem turn_on_send_outcome_witness:
  "res_sent (async_turn_on 254 (send_fails EDIDIOTimeoutError)
       (no_kwargs\<lparr>kw_brightness := Some 40\<rparr>) (init_light 5 PROTOCOL_DALI_WHITE 1) 0) =
     Some [create_dali_message 1 1 5 (Some DALI_ARC_LEVEL) (Some [39]) None None]
   \<and> res_light (async_turn_on 254 (send_fails EDIDIOTimeoutError)
       (no_kwargs\<lparr>kw_brightness := Some 40\<rparr>) (init_light 5 PROTOCOL_DALI_WHITE 1) 0) =
     (init_light 5 PROTOCOL_DALI_WHITE 1)\<lparr>brightness := 40, attr_available := False\<rparr>
   \<and> is_on (res_light (async_turn_on 254 (send_fails EDIDIOTimeoutError)
       (no_kwargs\<lparr>kw_brightness := Some 40\<rparr>) (init_light 5 PROTOCOL_DALI_WHITE 1) 0)) = False
   \<and> res_light (async_turn_on 254 send_ok
       (no_kwargs\<lparr>kw_brightness := Some 40\<rparr>) (init_light 5 PROTOCOL_DALI_WHITE 1) 0) =
     (init_light 5 PROTOCOL_DALI_WHITE 1)\<lparr>brightness := 40, is_on := True\<rparr>"
proof -
  let ?kw = "no_kwargs\<lparr>kw_brightness := Some 40\<rparr>"
  let ?l = "init_light 5 PROTOCOL_DALI_WHITE 1"
  let ?l' = "?l\<lparr>brightness := 40\<rparr>"
  have p: "protocol ?l' = PROTOCOL_DALI_WHITE" by (simp add: init_light_def)
  have v: "brightness_to_arc_level 254 40 = 39"
    using brightness_to_arc_level_254 [of 40] by simp
  have f: "line ?l = 1" "address ?l = 5" "is_on ?l = False" by (simp_all add: init_light_def)
  have sent: "res_sent (async_turn_on 254 send ?kw ?l 0) =
     Some [create_dali_message 1 1 5 (Some DALI_ARC_LEVEL) (Some [39]) None None]" for send
    using async_turn_on_sent [OF update_state_brightness_kw
        on_commands_dali_white [OF p, of 254 0], where send = send]
    by (simp add: v f)
  show ?thesis
    using turn_on_send_outcome [of 254 "send_fails EDIDIOTimeoutError" ?kw ?l 0]
      turn_on_send_outcome [of 254 send_ok ?kw ?l 0]
    by (simp add: sent update_state_brightness_kw send_fails_def send_ok_def f)
qed

text \<open>
  C6. For every light whose protocol string is not one of the eight enumerated names,
  \<^verbatim>\<open>async_turn_on\<close> and \<^verbatim>\<open>async_turn_off\<close> both hand the transport exactly one
  \<^verbatim>\<open>ARC_LEVEL\<close> message at the light's address, with value
  \<^verbatim>\<open>int(brightness / 255.0 * DALI_ARC_LEVEL_MAX)\<close> for on and 0 for off; these are the
  command lists a \<^verbatim>\<open>DALI_WHITE\<close> light in the same state produces.
\<close>

theorem unknown_protocol_falls_back_to_dali_white:
  assumes "protocol l \<notin> set PROTOCOLS" and "update_state kw l = (l', None)"
  shows "res_sent (async_turn_on dmax send kw l c) =
       Some [create_dali_message (c + 1) (line l) (address l) (Some DALI_ARC_LEVEL)
               (Some [py_int (fmul (fdiv (of_int (brightness l')) 255) (of_int dmax))]) None None]
     \<and> res_sent (async_turn_off send l c) =
       Some [create_dali_message (c + 1) (line l) (address l) (Some DALI_ARC_LEVEL)
               (Some [0]) None None]
     \<and> on_commands dmax l' c = on_commands dmax (l'\<lparr>protocol := PROTOCOL_DALI_WHITE\<rparr>) c
     \<and> off_commands l c = off_commands (l\<lparr>protocol := PROTOCOL_DALI_WHITE\<rparr>) c"
proof -
  note fixed = update_state_fixed [OF assms(2)]
  have unknown: "protocol l' \<notin> set PROTOCOLS" using assms(1) fixed(1) by simp
  have "res_sent (async_turn_on dmax send kw l c) =
       Some [create_dali_message (c + 1) (line l') (address l') (Some DALI_ARC_LEVEL)
               (Some [brightness_to_arc_level dmax (brightness l')]) None None]"
    by (rule async_turn_on_sent [OF assms(2) on_commands_fallback [OF unknown]]) simp
  moreover have "res_sent (async_turn_off send l c) =
       Some [create_dali_message (c + 1) (line l) (address l) (Some DALI_ARC_LEVEL)
               (Some [0]) None None]"
    by (rule async_turn_off_sent [OF off_commands_fallback [OF assms(1)]]) simp
  ultimately show ?thesis
    using fixed(2,3) on_commands_unknown_as_dali_white [OF unknown]
      off_commands_unknown_as_dali_white [OF assms(1)]
    by (simp add: brightness_to_arc_level_def)
qed

theorem unknown_protocol_falls_back_to_dali_white_witness:
  "protocol (init_light 7 ''zigbee'' 2) \<notin> set PROTOCOLS
   \<and> update_state (no_kwargs\<lparr>kw_brightness := Some 128\<rparr>) (init_light 7 ''zigbee'' 2)
       = ((init_light 7 ''zigbee'' 2)\<lparr>brightness := 128\<rparr>, None)
   \<and> res_sent (async_turn_on 254 send_ok (no_kwargs\<lparr>kw_brightness := Some 128\<rparr>)
         (init_light 7 ''zigbee'' 2) 0) =
       Some [create_dali_message 1 2 7 (Some DALI_ARC_LEVEL) (Some [127]) None None]
   \<and> res_sent (async_turn_off send_ok (init_light 7 ''zigbee'' 2) 0) =
       Some [create_dali_message 1 2 7 (Some DALI_ARC_LEVEL) (Some [0]) None None]"
proof -
  have v: "py_int (fmul (fdiv 128 255) 254) = 127"
    using brightness_to_arc_level_254 [of 128] by (simp add: brightness_to_arc_level_def)
  show ?thesis
    using unknown_protocol_falls_back_to_dali_white
      [of "init_light 7 ''zigbee'' 2" "no_kwargs\<lparr>kw_brightness := Some 128\<rparr>"
          "(init_light 7 ''zigbee'' 2)\<lparr>brightness := 128\<rparr>" 254 send_ok 0]
    by (simp add: update_state_brightness_kw init_light_def PROTOCOLS_def protocol_defs v)
qed

text \<open>
  C7, as the code has it. The level is the truncation of the float product, which is not
  always the truncation of \<open>channel * brightness / 255\<close>: for the colour
  \<open>(51, 102, 204)\<close> at brightness 155 the handler sends \<open>[30, 61, 123]\<close>, where the
  exact quotients are 31, 62 and 124. The factor \<^verbatim>\<open>155 / 255.0\<close> is rounded down, and
  the products fall just below the integers.
\<close>

theorem dmx_rgb_exact_truncation_counterexample:
  "res_sent (async_turn_on 254 send_ok
       (no_kwargs\<lparr>kw_brightness := Some 155, kw_rgb_color := Some (51, 102, 204)\<rparr>)
       (init_light 30 PROTOCOL_DMX_RGB 1) 0) =
     Some [create_dmx_message 1 0 2 30 1 [30, 61, 123] 25]
   \<and> spec_dmx_level 51 155 = 31
   \<and> spec_dmx_level 102 155 = 62
   \<and> spec_dmx_level 204 155 = 124"
proof -
  let ?kw = "no_kwargs\<lparr>kw_brightness := Some 155, kw_rgb_color := Some (51, 102, 204)\<rparr>"
  let ?a = "init_light 30 PROTOCOL_DMX_RGB 1"
  let ?b = "?a\<lparr>brightness := 155, rgb_color := (51, 102, 204)\<rparr>"
  have p: "protocol ?b = PROTOCOL_DMX_RGB" and q: "rgb_color ?b = (51, 102, 204)"
    by (simp_all add: init_light_def)
  have f: "address ?b = 30" "brightness ?b = 155" by (simp_all add: init_light_def)
  have v: "scaled_channel 51 155 = 30" "scaled_channel 102 155 = 61"
    "scaled_channel 204 155 = 123"
    by (simp_all add: scaled_channel_def calc py_int_def)
  have "res_sent (async_turn_on 254 send_ok ?kw ?a 0) =
      Some [create_dmx_message 1 0 2 30 1 [30, 61, 123] 25]"
    using async_turn_on_sent [OF update_state_brightness_rgb_kw
        on_commands_dmx_rgb [OF p q, of 254 0], where send = send_ok]
    by (simp add: f v)
  then show ?thesis by (simp add: spec_dmx_level_def py_int_def)
qed

text \<open>
  C7, amended. For a light with protocol \<^verbatim>\<open>DMX_RGB\<close>, the single DMX message carries
  the three levels \<^verbatim>\<open>int(channel * (brightness / 255.0))\<close>: the binary64 product
  truncated, not rounded. With brightness 255 a level is the stored channel unchanged,
  with brightness 0 it is 0. For channels and brightness in \<open>[0, 255]\<close> the level is
  \<open>\<lfloor>channel * brightness / 255\<rfloor>\<close> whenever 255 does not divide
  \<open>channel * brightness\<close>, and never above it nor more than one below it.
\<close>

theorem dmx_rgb_levels_truncate:
  assumes "protocol l = PROTOCOL_DMX_RGB" and "update_state kw l = (l', None)"
    and "rgb_color l' = (r, g, b)" and "brightness l' = br"
    and "0 \<le> x" and "x \<le> 255" and "0 \<le> br" and "br \<le> 255"
  shows "res_sent (async_turn_on dmax send kw l c) =
       Some [create_dmx_message (c + 1) 0 2 (address l) 1
               [py_int (fmul (of_int r) (fdiv (of_int br) 255)),
                py_int (fmul (of_int g) (fdiv (of_int br) 255)),
                py_int (fmul (of_int b) (fdiv (of_int br) 255))] 25]
     \<and> scaled_channel x br = py_int (fmul (of_int x) (fdiv (of_int br) 255))
     \<and> scaled_channel x 255 = x
     \<and> scaled_channel x 0 = 0
     \<and> x * br div 255 - 1 \<le> scaled_channel x br
     \<and> scaled_channel x br \<le> x * br div 255
     \<and> (x * br mod 255 \<noteq> 0 \<longrightarrow> scaled_channel x br = x * br div 255)"
proof -
  note fixed = update_state_fixed [OF assms(2)]
  have p: "protocol l' = PROTOCOL_DMX_RGB" using assms(1) fixed(1) by simp
  have "res_sent (async_turn_on dmax send kw l c) =
       Some [create_dmx_message (c + 1) 0 2 (address l') 1
               [scaled_channel r (brightness l'), scaled_channel g (brightness l'),
                scaled_channel b (brightness l')] 25]"
    by (rule async_turn_on_sent [OF assms(2) on_commands_dmx_rgb [OF p assms(3)]]) simp
  moreover have "scaled_channel x 255 = x" using assms(5,6) by (intro scaled_channel_full) simp
  moreover note scaled_channel_bounds [OF assms(5-8)] scaled_channel_zero [of x]
  ultimately show ?thesis
    using fixed(2) assms(4) by (simp add: scaled_channel_def)
qed

theorem dmx_rgb_levels_truncate_witness:
  "protocol (init_light 30 PROTOCOL_DMX_RGB 1) = PROTOCOL_DMX_RGB
   \<and> update_state (no_kwargs\<lparr>kw_brightness := Some 254, kw_rgb_color := Some (200, 100, 3)\<rparr>)
         (init_light 30 PROTOCOL_DMX_RGB 1) =
       ((init_light 30 PROTOCOL_DMX_RGB 1)\<lparr>brightness := 254, rgb_color := (200, 100, 3)\<rparr>, None)
   \<and> res_sent (async_turn_on 254 send_ok
         (no_kwargs\<lparr>kw_brightness := Some 254, kw_rgb_color := Some (200, 100, 3)\<rparr>)
         (init_light 30 PROTOCOL_DMX_RGB 1) 0) =
       Some [create_dmx_message 1 0 2 30 1 [199, 99, 2] 25]
   \<and> scaled_channel 100 254 = 99
   \<and> scaled_channel 100 255 = 100
   \<and> scaled_channel 100 0 = 0"
proof -
  let ?kw = "no_kwargs\<lparr>kw_brightness := Some 254, kw_rgb_color := Some (200, 100, 3)\<rparr>"
  let ?a = "init_light 30 PROTOCOL_DMX_RGB 1"
  let ?b = "?a\<lparr>brightness := 254, rgb_color := (200, 100, 3)\<rparr>"
  have h: "protocol ?a = PROTOCOL_DMX_RGB" "update_state ?kw ?a = (?b, None)"
    "rgb_color ?b = (200, 100, 3)" "brightness ?b = 254"
    by (simp_all add: update_state_brightness_rgb_kw) (simp add: init_light_def)
  have f: "address ?a = 30" by (simp add: init_light_def)
  have v: "scaled_channel 200 254 = 199" "scaled_channel 100 254 = 99" "scaled_channel 3 254 = 2"
    by (simp_all add: scaled_channel_exact)
  note t = dmx_rgb_levels_truncate [OF h, where x = 100 and dmax = 254 and send = send_ok and c = 0]
  show ?thesis
    using h(1,2) t v by (simp add: f scaled_channel_def)
qed

text \<open>
  C8. For every light with protocol \<^verbatim>\<open>DALI_RGBW\<close>, \<^verbatim>\<open>async_turn_off\<close> hands the
  transport exactly four \<^verbatim>\<open>ARC_LEVEL\<close> messages with value 0, at the addresses
  \<open>address\<close>, \<open>address + 1\<close>, \<open>address + 2\<close> and \<open>address + 3\<close>, whatever the stored
  brightness and colours are and whatever the transport answers.
\<close>

theorem dali_rgbw_off_four_zero_levels:
  assumes "protocol l = PROTOCOL_DALI_RGBW"
  shows "res_sent (async_turn_off send l c) =
     Some [create_dali_message (c + 1) (line l) (address l) (Some DALI_ARC_LEVEL) (Some [0]) None None,
       create_dali_message (c + 2) (line l) (address l + 1) (Some DALI_ARC_LEVEL) (Some [0]) None None,
       create_dali_message (c + 3) (line l) (address l + 2) (Some DALI_ARC_LEVEL) (Some [0]) None None,
       create_dali_message (c + 4) (line l) (address l + 3) (Some DALI_ARC_LEVEL) (Some [0]) None None]"
  by (rule async_turn_off_sent [OF off_commands_dali_rgbw [OF assms]]) simp

theorem dali_rgbw_off_four_zero_levels_witness:
  "protocol ((init_light 20 PROTOCOL_DALI_RGBW 1)\<lparr>brightness := 77, rgbw_color := (1, 2, 3, 4)\<rparr>)
     = PROTOCOL_DALI_RGBW \<and>
   res_sent (async_turn_off send_ok
      ((init_light 20 PROTOCOL_DALI_RGBW 1)\<lparr>brightness := 77, rgbw_color := (1, 2, 3, 4)\<rparr>) 0) =
     Some [create_dali_message 1 1 20 (Some DALI_ARC_LEVEL) (Some [0]) None None,
       create_dali_message 2 1 21 (Some DALI_ARC_LEVEL) (Some [0]) None None,
       create_dali_message 3 1 22 (Some DALI_ARC_LEVEL) (Some [0]) None None,
       create_dali_message 4 1 23 (Some DALI_ARC_LEVEL) (Some [0]) None None]"
  using dali_rgbw_off_four_zero_levels
    [of "(init_light 20 PROTOCOL_DALI_RGBW 1)\<lparr>brightness := 77, rgbw_color := (1, 2, 3, 4)\<rparr>"
       send_ok 0]
  by (simp add: init_light_def)

text \<open>
  C9. For a light with protocol \<^verbatim>\<open>DALI_DT8_XY\<close>, \<^verbatim>\<open>async_turn_on\<close> hands the transport
  exactly four messages in this order: \<^verbatim>\<open>SET_TEMP_X_COORD\<close> with the low and high byte
  of x, \<^verbatim>\<open>SET_TEMP_Y_COORD\<close> with the low and high byte of y, \<^verbatim>\<open>ARC_LEVEL\<close> with the
  brightness scaled to the DALI maximum, then \<^verbatim>\<open>ACTIVATE\<close>; \<^verbatim>\<open>async_turn_off\<close> hands
  it a single \<^verbatim>\<open>ARC_LEVEL\<close> 0 message.
\<close>

theorem dali_dt8_xy_message_order:
  assumes "protocol l = PROTOCOL_DALI_DT8_XY" and "update_state kw l = (l', None)"
    and "rgbw_color l' = (r, g, b, w)"
    and "rgb_to_xy_16bit (of_int r) (of_int g) (of_int b) = (x16, y16)"
  shows "res_sent (async_turn_on dmax send kw l c) =
       Some [create_dali_message (c + 1) (line l) (address l) None None
               (Some SET_TEMP_X_COORD) (Some [x16 AND 255, drop_bit 8 x16 AND 255]),
             create_dali_message (c + 2) (line l) (address l) None None
               (Some SET_TEMP_Y_COORD) (Some [y16 AND 255, drop_bit 8 y16 AND 255]),
             create_dali_message (c + 3) (line l) (address l) (Some DALI_ARC_LEVEL)
               (Some [py_int (fmul (fdiv (of_int (brightness l')) 255) (of_int dmax))]) None None,
             create_dali_message (c + 4) (line l) (address l) None None (Some ACTIVATE) None]
     \<and> res_sent (async_turn_off send l c) =
       Some [create_dali_message (c + 1) (line l) (address l) (Some DALI_ARC_LEVEL)
               (Some [0]) None None]"
proof -
  note fixed = update_state_fixed [OF assms(2)]
  have p: "protocol l' = PROTOCOL_DALI_DT8_XY" using assms(1) fixed(1) by simp
  have "res_sent (async_turn_on dmax send kw l c) =
       Some [create_dali_message (c + 1) (line l') (address l') None None
               (Some SET_TEMP_X_COORD) (Some [x16 AND 255, drop_bit 8 x16 AND 255]),
             create_dali_message (c + 2) (line l') (address l') None None
               (Some SET_TEMP_Y_COORD) (Some [y16 AND 255, drop_bit 8 y16 AND 255]),
             create_dali_message (c + 3) (line l') (address l') (Some DALI_ARC_LEVEL)
               (Some [brightness_to_arc_level dmax (brightness l')]) None None,
             create_dali_message (c + 4) (line l') (address l') None None (Some ACTIVATE) None]"
    by (rule async_turn_on_sent [OF assms(2) on_commands_dali_dt8_xy [OF p assms(3) assms(4)]]) simp
  moreover have "res_sent (async_turn_off send l c) =
       Some [create_dali_message (c + 1) (line l) (address l) (Some DALI_ARC_LEVEL)
               (Some [0]) None None]"
    by (rule async_turn_off_sent [OF off_commands_dali_dt8_xy [OF assms(1)]]) simp
  ultimately show ?thesis using fixed(2,3) by (simp add: brightness_to_arc_level_def)
qed

theorem dali_dt8_xy_message_order_witness:
  "protocol (init_light 9 PROTOCOL_DALI_DT8_XY 1) = PROTOCOL_DALI_DT8_XY
   \<and> update_state no_kwargs (init_light 9 PROTOCOL_DALI_DT8_XY 1)
       = (init_light 9 PROTOCOL_DALI_DT8_XY 1, None)
   \<and> rgbw_color (init_light 9 PROTOCOL_DALI_DT8_XY 1) = (255, 255, 255, 255)
   \<and> rgb_to_xy_16bit (of_int 255) (of_int 255) (of_int 255) = (20494, 21562)
   \<and> res_sent (async_turn_on 254 send_ok no_kwargs (init_light 9 PROTOCOL_DALI_DT8_XY 1) 0) =
       Some [create_dali_message 1 1 9 None None (Some SET_TEMP_X_COORD) (Some [14, 80]),
             create_dali_message 2 1 9 None None (Some SET_TEMP_Y_COORD) (Some [58, 84]),
             create_dali_message 3 1 9 (Some DALI_ARC_LEVEL) (Some [254]) None None,
             create_dali_message 4 1 9 None None (Some ACTIVATE) None]
   \<and> res_sent (async_turn_off send_ok (init_light 9 PROTOCOL_DALI_DT8_XY 1) 0) =
       Some [create_dali_message 1 1 9 (Some DALI_ARC_LEVEL) (Some [0]) None None]"
proof -
  have v: "py_int (fmul (fdiv 255 255) 254) = 254"
    using brightness_to_arc_level_255 [of 254] by (simp add: brightness_to_arc_level_def)
  have w: "rgb_to_xy_16bit (of_int 255) (of_int 255) (of_int 255) = (20494, 21562)"
    using rgb_to_xy_16bit_white by simp
  have u: "update_state no_kwargs (init_light 9 PROTOCOL_DALI_DT8_XY 1)
       = (init_light 9 PROTOCOL_DALI_DT8_XY 1, None)"
    by (simp add: update_state_no_kwargs init_light_def)
  have b: "(20494 :: int) AND 255 = 14" "drop_bit 8 (20494 :: int) AND 255 = 80"
    "(21562 :: int) AND 255 = 58" "drop_bit 8 (21562 :: int) AND 255 = 84"
    by simp_all
  have p: "protocol (init_light 9 PROTOCOL_DALI_DT8_XY 1) = PROTOCOL_DALI_DT8_XY"
    and q: "rgbw_color (init_light 9 PROTOCOL_DALI_DT8_XY 1) = (255, 255, 255, 255)"
    and f: "line (init_light 9 PROTOCOL_DALI_DT8_XY 1) = 1"
      "address (init_light 9 PROTOCOL_DALI_DT8_XY 1) = 9"
      "brightness (init_light 9 PROTOCOL_DALI_DT8_XY 1) = 255"
    by (simp_all add: init_light_def)
  show ?thesis
    using p u q w dali_dt8_xy_message_order [OF p u q w, of 254 send_ok 0]
    by (simp add: f v b)
qed

text \<open>
  C10. A successful \<^verbatim>\<open>async_turn_off\<close> clears the \<open>is_on\<close> flag and sets the stored
  brightness to 0. When \<^verbatim>\<open>async_turn_on\<close> is then called without a brightness argument
  on a light that is off with stored brightness 0, the stored brightness becomes 255
  before any command is built: the handler behaves exactly as it does on the same light
  with stored brightness 255, so no command of such a turn-on is computed from
  brightness 0.
\<close>

theorem turn_on_after_turn_off_uses_full_brightness:
  assumes "send (fst (off_commands l c)) = None"
    and "kw_brightness kw = None" and "\<not> is_on off" and "brightness off = 0"
  shows "res_light (async_turn_off send l c) = l\<lparr>is_on := False, brightness := 0\<rparr>
     \<and> brightness (fst (update_state kw off)) = 255
     \<and> async_turn_on dmax send' kw off c' = async_turn_on dmax send' kw (off\<lparr>brightness := 255\<rparr>) c'"
  using async_turn_off_ok [of send l c] assms(1) update_state_brightness_255 [OF assms(2,3,4)]
    update_state_resets_brightness [OF assms(2,3,4)]
  by (simp add: async_turn_on_def)

theorem turn_on_after_turn_off_uses_full_brightness_witness:
  "send_ok (fst (off_commands ((init_light 5 PROTOCOL_DALI_WHITE 1)\<lparr>is_on := True, brightness := 200\<rparr>) 0))
     = None
   \<and> kw_brightness no_kwargs = None
   \<and> res_light (async_turn_off send_ok
         ((init_light 5 PROTOCOL_DALI_WHITE 1)\<lparr>is_on := True, brightness := 200\<rparr>) 0) =
       (init_light 5 PROTOCOL_DALI_WHITE 1)\<lparr>is_on := False, brightness := 0\<rparr>
   \<and> \<not> is_on ((init_light 5 PROTOCOL_DALI_WHITE 1)\<lparr>is_on := False, brightness := 0\<rparr>)
   \<and> brightness ((init_light 5 PROTOCOL_DALI_WHITE 1)\<lparr>is_on := False, brightness := 0\<rparr>) = 0
   \<and> res_sent (async_turn_on 254 send_ok no_kwargs
         ((init_light 5 PROTOCOL_DALI_WHITE 1)\<lparr>is_on := False, brightness := 0\<rparr>) 1) =
       Some [create_dali_message 2 1 5 (Some DALI_ARC_LEVEL) (Some [254]) None None]"
proof -
  let ?lit = "(init_light 5 PROTOCOL_DALI_WHITE 1)\<lparr>is_on := True, brightness := 200\<rparr>"
  let ?off = "(init_light 5 PROTOCOL_DALI_WHITE 1)\<lparr>is_on := False, brightness := 0\<rparr>"
  let ?full = "?off\<lparr>brightness := 255\<rparr>"
  have h: "send_ok (fst (off_commands ?lit 0)) = None" "kw_brightness no_kwargs = None"
    "\<not> is_on ?off" "brightness ?off = 0"
    by (simp_all add: send_ok_def no_kwargs_def)
  have eq: "?lit\<lparr>is_on := False, brightness := 0\<rparr> = ?off" by simp
  have p: "protocol ?full = PROTOCOL_DALI_WHITE" by (simp add: init_light_def)
  have u: "update_state no_kwargs ?full = (?full, None)" by (simp add: update_state_no_kwargs)
  have f: "line ?full = 1" "address ?full = 5" "brightness ?full = 255" by (simp_all add: init_light_def)
  have v: "brightness_to_arc_level 254 255 = 254"
    using brightness_to_arc_level_255 [of 254] by simp
  have sent: "res_sent (async_turn_on 254 send_ok no_kwargs ?full 1) =
     Some [create_dali_message 2 1 5 (Some DALI_ARC_LEVEL) (Some [254]) None None]"
    using async_turn_on_sent [OF u on_commands_dali_white [OF p, of 254 1],
        where send = send_ok]
    by (simp add: v init_light_def)
  note t = turn_on_after_turn_off_uses_full_brightness
    [where send = send_ok and l = ?lit and c = 0 and kw = no_kwargs and off = ?off
       and dmax = 254 and send' = send_ok and c' = 1, OF h]
  show ?thesis
    using h t sent by (simp only: eq simp_thms)
qed


end
